theory Spec2Isabelle
  imports Main "HOL-Library.Word"
begin

unbundle bit_operations_syntax

section \<open>The SPIR-V producer pass of clspv: a shallow embedding\<close>

text \<open>
  This theory embeds the parts of \<^verbatim>\<open>lib/SPIRVProducerPass.cpp\<close> that decide
  the properties verified below.  Unsigned machine integers are words of their width
  (\<^verbatim>\<open>uint32_t\<close> is \<^typ>\<open>32 word\<close>, \<^verbatim>\<open>uint16_t\<close> is \<^typ>\<open>16 word\<close>),
  sizes of containers are natural numbers, and a call of \<^verbatim>\<open>llvm_unreachable\<close> or a
  failing \<^verbatim>\<open>assert\<close> is the error value \<open>Inl\<close> of a sum type: the pass is modelled as
  built with assertions enabled, where both stop the translation.
\<close>

type_synonym uint32_t = "32 word"
type_synonym uint16_t = "16 word"

datatype fatal = Unreachable string | AssertionFailed string | UndefinedBehaviour string

text \<open>Sequencing of steps that may stop the translation.\<close>

definition and_then :: "fatal + 'a \<Rightarrow> ('a \<Rightarrow> fatal + 'b) \<Rightarrow> fatal + 'b" where
  "and_then m f = (case m of Inl e \<Rightarrow> Inl e | Inr x \<Rightarrow> f x)"

subsection \<open>Operands\<close>

datatype SPIRVOperandType = NUMBERID | LITERAL_INTEGER | LITERAL_STRING | LITERAL_FLOAT

record SPIRVOperand =
  Type :: SPIRVOperandType
  LiteralStr :: string
  LiteralNum :: "uint32_t list"

text \<open>The four constructors of \<^verbatim>\<open>struct SPIRVOperand\<close>; the two string ones coincide.\<close>

definition SPIRVOperand_Num :: "SPIRVOperandType \<Rightarrow> uint32_t \<Rightarrow> SPIRVOperand" where
  "SPIRVOperand_Num Ty Num = \<lparr>Type = Ty, LiteralStr = [], LiteralNum = [Num]\<rparr>"

definition SPIRVOperand_Str :: "SPIRVOperandType \<Rightarrow> string \<Rightarrow> SPIRVOperand" where
  "SPIRVOperand_Str Ty Str = \<lparr>Type = Ty, LiteralStr = Str, LiteralNum = []\<rparr>"


definition getNumID :: "SPIRVOperand \<Rightarrow> uint32_t" where
  "getNumID Op = hd (LiteralNum Op)"

text \<open>
  \<^verbatim>\<open>GetNumWords\<close> returns \<^verbatim>\<open>uint32_t\<close>: the container sizes (\<^verbatim>\<open>size_t\<close>) are
  converted to 32 bits on return.
\<close>

definition GetNumWords :: "SPIRVOperand \<Rightarrow> uint32_t" where
  "GetNumWords Op =
     (case Type Op of
        NUMBERID \<Rightarrow> 1
      | LITERAL_INTEGER \<Rightarrow> of_nat (length (LiteralNum Op))
      | LITERAL_FLOAT \<Rightarrow> of_nat (length (LiteralNum Op))
      | LITERAL_STRING \<Rightarrow> of_nat ((length (LiteralStr Op) + 4) div 4))"

definition MkNum :: "uint32_t \<Rightarrow> SPIRVOperand" where
  "MkNum num = SPIRVOperand_Num LITERAL_INTEGER num"



definition MkId :: "uint32_t \<Rightarrow> SPIRVOperand" where
  "MkId id' = SPIRVOperand_Num NUMBERID id'"

definition MkString :: "string \<Rightarrow> SPIRVOperand" where
  "MkString str = SPIRVOperand_Str LITERAL_STRING str"

subsection \<open>Instructions\<close>

text \<open>The enumerators of \<^verbatim>\<open>spv::Op\<close> (an external header) that the embedded code uses.\<close>

datatype Op =
    OpNop | OpUndef | OpSource | OpExtension | OpExtInstImport | OpExtInst
  | OpMemoryModel | OpEntryPoint | OpExecutionMode | OpCapability
  | OpTypeVoid | OpTypeBool | OpTypeInt | OpTypeFloat | OpTypeVector
  | OpTypeImage | OpTypeSampler | OpTypeSampledImage | OpTypeArray
  | OpTypeRuntimeArray | OpTypeStruct | OpTypePointer | OpTypeFunction
  | OpConstantTrue | OpConstantFalse | OpConstant | OpConstantComposite
  | OpConstantNull | OpSpecConstant | OpSpecConstantComposite
  | OpVariable | OpDecorate | OpMemberDecorate
  | OpFunctionCall | OpCompositeConstruct | OpBitCount
  | OpIAdd | OpFAdd | OpISub | OpFSub | OpIMul | OpFMul | OpUDiv | OpSDiv | OpFDiv
  | OpUMod | OpSRem | OpFRem
  | OpShiftRightLogical | OpShiftRightArithmetic | OpShiftLeftLogical
  | OpBitwiseOr | OpBitwiseXor | OpBitwiseAnd
  | OpLogicalNotEqual | OpLogicalOr | OpLogicalAnd | OpLogicalNot
  | OpFunction | OpFunctionParameter | OpFunctionEnd | OpLabel | OpReturn
  | OpPhi | OpLoopMerge | OpSelectionMerge | OpBranch | OpBranchConditional

record SPIRVInstruction =
  WordCount :: uint16_t
  Opcode :: Op
  ResultID :: uint32_t
  Operands :: "SPIRVOperand list"

text \<open>
  The loop \<^verbatim>\<open>for (auto *operand : Ops) WordCount += operand->GetNumWords();\<close> adds a
  32-bit value to the 16-bit member: the sum is converted back to 16 bits.
\<close>

definition addWordCounts :: "uint16_t \<Rightarrow> SPIRVOperand list \<Rightarrow> uint16_t" where
  "addWordCounts wc Ops = fold (\<lambda>operand w. w + ucast (GetNumWords operand)) Ops wc"

text \<open>The constructor without a result id.\<close>

definition SPIRVInstruction_Ops :: "Op \<Rightarrow> SPIRVOperand list \<Rightarrow> SPIRVInstruction" where
  "SPIRVInstruction_Ops Opc Ops =
     \<lparr>WordCount = addWordCounts 1 Ops, Opcode = Opc, ResultID = 0, Operands = Ops\<rparr>"

text \<open>The constructor with a result id, which must not be 0.\<close>

definition SPIRVInstruction_ResID ::
  "Op \<Rightarrow> uint32_t \<Rightarrow> SPIRVOperand list \<Rightarrow> fatal + SPIRVInstruction" where
  "SPIRVInstruction_ResID Opc ResID Ops =
     (if ResID = 0 then Inl (Unreachable ''Result ID of 0 was provided'')
      else Inr \<lparr>WordCount = addWordCounts 2 Ops, Opcode = Opc, ResultID = ResID,
                 Operands = Ops\<rparr>)"


subsection \<open>The LLVM IR the pass reads\<close>

text \<open>
  The address spaces of \<^verbatim>\<open>clspv/AddressSpace.h\<close>, with one more constructor for any
  other number.
\<close>

datatype AddressSpace =
    AS_Private | AS_Global | AS_Constant | AS_Local | AS_Input | AS_UniformConstant
  | AS_Uniform | AS_ModuleScopePrivate | AS_Other nat

text \<open>
  LLVM types.  LLVM keeps one object for each type, so that the source's comparison of
  \<^verbatim>\<open>Type *\<close> pointers is equality of these values.  The bit width of an integer
  type and the element count of a vector type are \<^verbatim>\<open>unsigned\<close>, the length of an
  array is a 64-bit number; a struct type has its name, whether it is opaque, and its
  element types.  \<open>OtherTy\<close> stands for the type ids the pass has no case for.
\<close>

datatype Type =
    VoidTy | HalfTy | FloatTy | DoubleTy | LabelTy | MetadataTy | OtherTy nat
  | IntegerTy uint32_t
  | FunctionTy Type "Type list"
  | StructTy string bool "Type list"
  | ArrayTy Type nat
  | PointerTy Type AddressSpace
  | VectorTy Type uint32_t

text \<open>
  Constants.  \<open>ConstantInt w v\<close> has bit width \<open>w\<close> and zero-extended value \<open>v\<close>;
  \<open>ConstantFP T bits\<close> carries the bit pattern of its value; a
  \<open>ConstantDataSequential\<close> carries its element values (for a floating-point element its
  bit pattern); \<open>OtherConstant\<close> stands for the kinds the pass has no case for (constant
  expressions, block addresses), none of which is a null value.
\<close>

datatype Constant =
    UndefValue Type
  | ConstantInt uint32_t nat
  | ConstantFP Type nat
  | ConstantDataSequential Type "nat list"
  | ConstantAggregate Type "Constant list"
  | ConstantAggregateZero Type
  | ConstantPointerNull Type
  | OtherConstant Type nat

datatype Value =
    ConstantV Constant
  | GlobalVariableV string
  | FunctionV string
  | ArgumentV string nat
  | BasicBlockV string nat
  | InstructionV string nat

text \<open>\<^verbatim>\<open>isa<Constant>\<close>: global values are constants too.\<close>

fun isa_Constant :: "Value \<Rightarrow> bool" where
  "isa_Constant (ConstantV C) = True"
| "isa_Constant (GlobalVariableV n) = True"
| "isa_Constant (FunctionV n) = True"
| "isa_Constant V = False"


text \<open>A user of an argument: whether it is a \<^verbatim>\<open>GetElementPtrInst\<close>, and its type.\<close>

record User =
  isa_GetElementPtrInst :: bool
  UserType :: Type

record Argument =
  ArgValue :: Value
  ArgType :: Type
  ArgUsers :: "User list"

record GlobalVariable =
  GVName :: string
  GVType :: Type
  Initializer :: "Value option"

datatype CallingConv = SPIR_KERNEL | SPIR_FUNC | OtherCC nat

text \<open>
  A function of the module, with the operands of its \<^verbatim>\<open>reqd_work_group_size\<close>
  metadata when it has one: three \<open>ConstantInt\<close>s, each given as (bit width, value).
\<close>

record Function =
  FuncName :: string
  isDeclaration :: bool
  getCallingConv :: CallingConv
  reqd_work_group_size ::
    "((uint32_t \<times> nat) \<times> (uint32_t \<times> nat) \<times> (uint32_t \<times> nat)) option"

text \<open>
  The instructions of a function body that the embedded functions read.  An instruction
  is a value of its own (the key \<^verbatim>\<open>&I\<close> of the value map); its content is:
  for a \<^verbatim>\<open>BinaryOperator\<close> the opcode, the type and the two operands; for a \<^verbatim>\<open>BranchInst\<close>
  its parent block, successor 0 and, when it is conditional, the condition and successor 1;
  for a \<^verbatim>\<open>PHINode\<close> the type and the pairs of incoming value and incoming block; for a
  \<^verbatim>\<open>CallInst\<close> the type, the name of the called function, the number of parameters of
  its function type, the argument operands and the text that printing the call gives.
\<close>

datatype BinaryOps =
    Add | FAdd | Sub | FSub | Mul | FMul | UDiv | SDiv | FDiv | URem | SRem | FRem
  | Shl | LShr | AShr | And | Or | Xor

datatype Instruction =
    BinaryOperator BinaryOps Type Value Value
  | BranchInst Value Value "(Value \<times> Value) option"
  | PHINode Type "(Value \<times> Value) list"
  | CallInst Type string nat "Value list" string
  | OtherInstruction nat

text \<open>
  The results of \<^verbatim>\<open>LoopInfoWrapperPass\<close> and \<^verbatim>\<open>DominatorTreeWrapperPass\<close>, as the pass
  reads them.  Blocks of different functions are different values, so one table serves
  all functions.  \<^verbatim>\<open>getExitBlock\<close> and \<^verbatim>\<open>getLoopLatch\<close> may be null.
\<close>

record Loop =
  getHeader :: Value
  getExitBlock :: "Value option"
  getLoopLatch :: "Value option"
  isLoopLatch :: "Value \<Rightarrow> bool"
  blocks :: "Value list"

record Analyses =
  getLoopFor :: "Value \<Rightarrow> Loop option"
  dominates :: "Value \<Rightarrow> Value option \<Rightarrow> bool"

text \<open>\<^verbatim>\<open>LoopInfo::isLoopHeader\<close>: the block is the header of its innermost loop.\<close>

definition isLoopHeader :: "Analyses \<Rightarrow> Value \<Rightarrow> bool" where
  "isLoopHeader A BB = (case getLoopFor A BB of None \<Rightarrow> False | Some L \<Rightarrow> getHeader L = BB)"

text \<open>The functions and the global variables of a module, in the order of the module.\<close>

record Module =
  getFunctionList :: "Function list"
  getGlobalList :: "GlobalVariable list"

text \<open>Information about a pointer-to-local argument (\<^verbatim>\<open>struct LocalArgInfo\<close>).\<close>

record LocalArgInfo =
  variable_id :: uint32_t
  elem_type :: Type
  array_size_id :: uint32_t
  array_type_id :: uint32_t
  ptr_array_type_id :: uint32_t
  first_elem_ptr_id :: uint32_t
  spec_id :: int

subsection \<open>Streams\<close>

text \<open>
  A \<^verbatim>\<open>raw_pwrite_stream\<close> is the list of the bytes written to it so far (a C++
  \<^verbatim>\<open>char\<close> is a byte).  \<^verbatim>\<open>write\<close> and \<^verbatim>\<open><<\<close> append, \<^verbatim>\<open>tell\<close> is the number of
  bytes, and \<^verbatim>\<open>pwrite\<close> overwrites in place; LLVM asserts that it does not extend the
  stream.
\<close>

type_synonym stream = "8 word list"

definition ascii :: "string \<Rightarrow> 8 word list" where
  "ascii str = map of_char str"

definition tell :: "stream \<Rightarrow> nat" where
  "tell os = length os"

definition os_write :: "stream \<Rightarrow> 8 word list \<Rightarrow> stream" where
  "os_write os bytes = os @ bytes"

definition pwrite :: "stream \<Rightarrow> 8 word list \<Rightarrow> nat \<Rightarrow> fatal + stream" where
  "pwrite os bytes Offset =
     (if tell os \<noteq> 0 \<and> \<not> length bytes + Offset \<le> tell os
      then Inl (AssertionFailed ''We don't support extending the stream'')
      else Inr (take Offset os @ bytes @ drop (Offset + length bytes) os))"

text \<open>
  The bytes of a 32-bit word in memory, on a little-endian host, as
  \<^verbatim>\<open>reinterpret_cast<const char *>(&Word)\<close> reads them.
\<close>

definition bytes_of_uint32 :: "uint32_t \<Rightarrow> 8 word list" where
  "bytes_of_uint32 w =
     [ucast w, ucast (drop_bit 8 w), ucast (drop_bit 16 w), ucast (drop_bit 24 w)]"

text \<open>
  \<^verbatim>\<open>std::to_string\<close> of an unsigned number, which is also what \<^verbatim>\<open><<\<close> prints for
  it: the decimal digits, most significant first.
\<close>

function to_string :: "nat \<Rightarrow> 8 word list" where
  "to_string n =
     (if n < 10 then [of_nat (48 + n)] else to_string (n div 10) @ [of_nat (48 + n mod 10)])"
  by pat_completeness auto
termination
  by (relation "measure (\<lambda>n. n)") auto

declare to_string.simps [simp del]

subsection \<open>The state of the pass\<close>

text \<open>
  The members of \<^verbatim>\<open>struct SPIRVProducerPass\<close> that the embedded functions read or
  write, and the diagnostics stream \<^verbatim>\<open>errs()\<close>, one message per entry.  Maps that the
  source iterates over (\<^verbatim>\<open>ArgumentGVMap\<close>, \<^verbatim>\<open>ImageTypeMap\<close>) are association lists, in
  the order of that iteration.
\<close>

record SPIRVProducerPass =
  out :: stream
  binaryTempOut :: stream
  errs :: "string list"
  descriptorMapOut :: stream
  outputAsm :: bool
  outputCInitList :: bool
  patchBoundOffset :: nat
  nextID :: uint32_t
  TypeMap :: "Type \<rightharpoonup> uint32_t"
  ImageTypeMap :: "(Type \<times> uint32_t) list"
  Types :: "Type list"
  Constants :: "Value list"
  ValueMap :: "Value \<rightharpoonup> uint32_t"
  AllocatedValueMap :: "Value \<rightharpoonup> uint32_t"
  SPIRVInsts :: "SPIRVInstruction list"
  DeferredInstVec :: "(Instruction \<times> nat \<times> uint32_t) list"
  ArgumentGVMap :: "(Argument \<times> GlobalVariable) list"
  EntryPointVec :: "(Function \<times> uint32_t) list"
  EntryPointInterfacesVec :: "Value list"
  OpExtInstImportID :: uint32_t
  BuiltinDimensionVec :: "uint32_t list"
  TypesNeedingArrayStride :: "Type list"
  WorkgroupSizeValueID :: uint32_t
  WorkgroupSizeVarID :: uint32_t
  LocalArgs :: "Argument list"
  LocalArgMap :: "Value \<rightharpoonup> LocalArgInfo"
  NextDescriptorSetIndex :: uint32_t
  constant_i32_zero_id :: uint32_t

text \<open>The constructor of the pass.\<close>

definition SPIRVProducerPass_ctor ::
  "stream \<Rightarrow> bool \<Rightarrow> bool \<Rightarrow> SPIRVProducerPass" where
  "SPIRVProducerPass_ctor os asm cinit =
     \<lparr>out = os, binaryTempOut = [], errs = [], descriptorMapOut = [], outputAsm = asm, outputCInitList = cinit,
      patchBoundOffset = 0, nextID = 1, TypeMap = Map.empty, ImageTypeMap = [],
      Types = [], Constants = [], ValueMap = Map.empty, AllocatedValueMap = Map.empty,
      SPIRVInsts = [], DeferredInstVec = [], ArgumentGVMap = [], EntryPointVec = [],
      EntryPointInterfacesVec = [], OpExtInstImportID = 0, BuiltinDimensionVec = [],
      TypesNeedingArrayStride = [], WorkgroupSizeValueID = 0, WorkgroupSizeVarID = 0,
      LocalArgs = [], LocalArgMap = Map.empty, NextDescriptorSetIndex = 0,
      constant_i32_zero_id = 0\<rparr>"

subsection \<open>The header\<close>

text \<open>\<^verbatim>\<open>spv::MagicNumber\<close> and \<^verbatim>\<open>spv::Version\<close> of the SPIR-V 1.0 header.\<close>

definition MagicNumber :: uint32_t where
  "MagicNumber = 0x07230203"

definition Version :: uint32_t where
  "Version = 0x00010000"

text \<open>
  \<^verbatim>\<open>binaryOut\<close> points to \<^verbatim>\<open>binaryTempOut\<close> when a C initializer list is wanted, and
  to \<^verbatim>\<open>out\<close> otherwise.
\<close>

definition binaryOut :: "SPIRVProducerPass \<Rightarrow> stream" where
  "binaryOut P = (if outputCInitList P then binaryTempOut P else out P)"

definition binaryOut_update :: "stream \<Rightarrow> SPIRVProducerPass \<Rightarrow> SPIRVProducerPass" where
  "binaryOut_update os P =
     (if outputCInitList P then P\<lparr>binaryTempOut := os\<rparr> else P\<lparr>out := os\<rparr>)"

text \<open>
  The loop \<^verbatim>\<open>for (uint32_t i = max; 0 != i; i /= 10) out << " ";\<close> of
  \<^verbatim>\<open>outputHeader\<close>.
\<close>

function reserveBound :: "uint32_t \<Rightarrow> stream \<Rightarrow> stream" where
  "reserveBound i os = (if 0 \<noteq> i then reserveBound (i div 10) (os_write os (ascii '' '')) else os)"
  by pat_completeness auto
termination
proof (relation "measure (\<lambda>(i, os). unat i)")
  show "wf (measure (\<lambda>(i, os). unat i))" by simp
next
  fix i :: uint32_t and os :: stream
  assume "0 \<noteq> i"
  then have "0 < unat i" by (simp add: unat_gt_0)
  then have "unat i div 10 < unat i" by simp
  then show "((i div 10, os_write os (ascii '' '')), (i, os)) \<in> measure (\<lambda>(i, os). unat i)"
    by (simp add: unat_div)
qed

declare reserveBound.simps [simp del]

definition outputHeader :: "SPIRVProducerPass \<Rightarrow> SPIRVProducerPass" where
  "outputHeader P =
     (if outputAsm P then
        let os1 = os_write (out P) (ascii ''; SPIR-V\<newline>'');
            major = and (drop_bit 16 Version) 0xFF;
            minor = and (drop_bit 8 Version) 0xFF;
            os2 = os_write (os_write (os_write (os_write (os_write os1 (ascii ''; Version: ''))
                    (to_string (unat major))) (ascii ''.'')) (to_string (unat minor)))
                    (ascii ''\<newline>'');
            os3 = os_write os2 (ascii ''; Generator: Codeplay; 0\<newline>'');
            os4 = os_write os3 (ascii ''; Bound: '');
            offset = tell os4;
            os5 = reserveBound (- 1) os4;
            os6 = os_write os5 (ascii ''\<newline>'');
            os7 = os_write os6 (ascii ''; Schema: 0\<newline>'')
        in P\<lparr>out := os7, patchBoundOffset := offset\<rparr>
      else
        let os1 = os_write (binaryOut P) (bytes_of_uint32 MagicNumber);
            os2 = os_write os1 (bytes_of_uint32 Version);
            vendor = push_bit 16 3;
            os3 = os_write os2 (bytes_of_uint32 vendor);
            offset = tell os3;
            os4 = os_write os3 (bytes_of_uint32 (nextID P));
            schema = 0;
            os5 = os_write os4 (bytes_of_uint32 schema)
        in (binaryOut_update os5 P)\<lparr>patchBoundOffset := offset\<rparr>)"

definition patchHeader :: "SPIRVProducerPass \<Rightarrow> fatal + SPIRVProducerPass" where
  "patchHeader P =
     (if outputAsm P then
        let asString = to_string (unat (nextID P))
        in and_then (pwrite (out P) asString (patchBoundOffset P))
             (\<lambda>os. Inr (P\<lparr>out := os\<rparr>))
      else
        and_then (pwrite (binaryOut P) (bytes_of_uint32 (nextID P)) (patchBoundOffset P))
          (\<lambda>os. Inr (binaryOut_update os P)))"

text \<open>
  Reading the output back.  A word of the binary stream is read from four bytes as
  \<^verbatim>\<open>runOnModule\<close> does for the C initializer list,
  \<^verbatim>\<open>a | (b << 8) | (c << 16) | (d << 24)\<close>; a decimal number of the assembly text is
  the value of its leading digits.
\<close>

definition word_at :: "stream \<Rightarrow> nat \<Rightarrow> uint32_t" where
  "word_at str i =
     (let a = ucast (str ! i) :: uint32_t;
          b = ucast (str ! (i + 1)) :: uint32_t;
          c = ucast (str ! (i + 2)) :: uint32_t;
          d = ucast (str ! (i + 3)) :: uint32_t
      in or a (or (push_bit 8 b) (or (push_bit 16 c) (push_bit 24 d))))"

definition isdigit :: "8 word \<Rightarrow> bool" where
  "isdigit b = (48 \<le> unat b \<and> unat b \<le> 57)"

fun read_digits :: "nat \<Rightarrow> 8 word list \<Rightarrow> nat" where
  "read_digits acc [] = acc"
| "read_digits acc (b # bs) =
     (if isdigit b then read_digits (10 * acc + (unat b - 48)) bs else acc)"

definition decimal_at :: "stream \<Rightarrow> nat \<Rightarrow> nat" where
  "decimal_at str i = read_digits 0 (drop i str)"

subsection \<open>Type lookup and emission of instructions\<close>

definition isOpaqueStructTy :: "Type \<Rightarrow> bool" where
  "isOpaqueStructTy Ty = (case Ty of StructTy name opaque elems \<Rightarrow> opaque | _ \<Rightarrow> False)"

definition lookupType :: "SPIRVProducerPass \<Rightarrow> Type \<Rightarrow> fatal + uint32_t" where
  "lookupType P Ty =
     (let Ty' = (case Ty of
                   PointerTy PointeeTy AS \<Rightarrow>
                     if AS \<noteq> AS_UniformConstant \<and> isOpaqueStructTy PointeeTy
                     then PointeeTy else Ty
                 | _ \<Rightarrow> Ty)
      in case TypeMap P Ty' of
           None \<Rightarrow> Inl (Unreachable ''Unhandled type!'')
         | Some i \<Rightarrow> Inr i)"

text \<open>
  \<^verbatim>\<open>SPIRVInstList.push_back(new SPIRVInstruction(Opc, nextID++, Ops))\<close>, the way
  every instruction with a fresh result id is emitted.
\<close>

definition push_back_nextID ::
  "Op \<Rightarrow> SPIRVOperand list \<Rightarrow> SPIRVProducerPass \<Rightarrow> fatal + SPIRVProducerPass" where
  "push_back_nextID Opc Ops P =
     and_then (SPIRVInstruction_ResID Opc (nextID P) Ops)
       (\<lambda>Inst. Inr (P\<lparr>nextID := nextID P + 1, SPIRVInsts := SPIRVInsts P @ [Inst]\<rparr>))"

text \<open>The same with a result id reserved earlier.\<close>

definition push_back_ResID ::
  "Op \<Rightarrow> uint32_t \<Rightarrow> SPIRVOperand list \<Rightarrow> SPIRVProducerPass \<Rightarrow> fatal + SPIRVProducerPass" where
  "push_back_ResID Opc ResID Ops P =
     and_then (SPIRVInstruction_ResID Opc ResID Ops)
       (\<lambda>Inst. Inr (P\<lparr>SPIRVInsts := SPIRVInsts P @ [Inst]\<rparr>))"

text \<open>
  The insertion point of decorations: \<^verbatim>\<open>std::find_if\<close> for the first instruction
  that is no \<^verbatim>\<open>OpDecorate\<close>, \<^verbatim>\<open>OpMemberDecorate\<close> or \<^verbatim>\<open>OpExtInstImport\<close>, as an index
  into the list.  Inserting before a \<^verbatim>\<open>std::list\<close> iterator leaves the iterator on its
  element: instructions inserted one after the other at the same iterator stand in
  the order of their insertion, right before that element.
\<close>

definition DecoInsertPoint :: "SPIRVInstruction list \<Rightarrow> nat" where
  "DecoInsertPoint Insts =
     length (takeWhile (\<lambda>Inst. \<not> (Opcode Inst \<noteq> OpDecorate \<and> Opcode Inst \<noteq> OpMemberDecorate
                                   \<and> Opcode Inst \<noteq> OpExtInstImport)) Insts)"

definition insert_before :: "nat \<Rightarrow> 'a list \<Rightarrow> 'a list \<Rightarrow> 'a list" where
  "insert_before pos new xs = take pos xs @ new @ drop pos xs"

definition insert_decorations ::
  "SPIRVInstruction list \<Rightarrow> SPIRVProducerPass \<Rightarrow> SPIRVProducerPass" where
  "insert_decorations Decos P =
     P\<lparr>SPIRVInsts := insert_before (DecoInsertPoint (SPIRVInsts P)) Decos (SPIRVInsts P)\<rparr>"

text \<open>The enumerators of \<^verbatim>\<open>spirv.hpp\<close> that appear as literal operands.\<close>

definition StorageClassUniformConstant :: uint32_t where "StorageClassUniformConstant = 0"
definition StorageClassInput :: uint32_t where "StorageClassInput = 1"
definition StorageClassUniform :: uint32_t where "StorageClassUniform = 2"
definition StorageClassWorkgroup :: uint32_t where "StorageClassWorkgroup = 4"
definition StorageClassPrivate :: uint32_t where "StorageClassPrivate = 6"
definition StorageClassFunction :: uint32_t where "StorageClassFunction = 7"
definition StorageClassStorageBuffer :: uint32_t where "StorageClassStorageBuffer = 12"
definition DecorationSpecId :: uint32_t where "DecorationSpecId = 1"
definition DecorationBlock :: uint32_t where "DecorationBlock = 2"
definition DecorationArrayStride :: uint32_t where "DecorationArrayStride = 6"
definition DecorationBuiltIn :: uint32_t where "DecorationBuiltIn = 11"
definition DecorationBinding :: uint32_t where "DecorationBinding = 33"
definition DecorationDescriptorSet :: uint32_t where "DecorationDescriptorSet = 34"
definition DecorationOffset :: uint32_t where "DecorationOffset = 35"
definition Dim2D :: uint32_t where "Dim2D = 1"
definition Dim3D :: uint32_t where "Dim3D = 2"
definition ImageFormatUnknown :: uint32_t where "ImageFormatUnknown = 0"

definition GetStorageClass :: "AddressSpace \<Rightarrow> fatal + uint32_t" where
  "GetStorageClass AddrSpace =
     (case AddrSpace of
        AS_Private \<Rightarrow> Inr StorageClassFunction
      | AS_Global \<Rightarrow> Inr StorageClassStorageBuffer
      | AS_Constant \<Rightarrow> Inr StorageClassStorageBuffer
      | AS_Input \<Rightarrow> Inr StorageClassInput
      | AS_Local \<Rightarrow> Inr StorageClassWorkgroup
      | AS_UniformConstant \<Rightarrow> Inr StorageClassUniformConstant
      | AS_Uniform \<Rightarrow> Inr StorageClassUniform
      | AS_ModuleScopePrivate \<Rightarrow> Inr StorageClassPrivate
      | AS_Other n \<Rightarrow> Inl (Unreachable ''Unsupported OpenCL address space''))"

definition is4xi8vec :: "Type \<Rightarrow> bool" where
  "is4xi8vec Ty =
     (case Ty of
        VectorTy ElemTy n \<Rightarrow> ElemTy = IntegerTy 8 \<and> n = 4
      | _ \<Rightarrow> False)"

subsection \<open>Emission of types\<close>

text \<open>
  The data layout of the module, as far as the pass asks it: the allocation size of a
  type and the byte offset of a struct member.
\<close>

record DataLayout =
  getTypeAllocSize :: "Type \<Rightarrow> nat"
  getElementOffset :: "Type \<Rightarrow> nat \<Rightarrow> nat"

text \<open>
  The body of the loop of \<^verbatim>\<open>GenerateSPIRVTypes\<close> is one function for each case of
  its switch.  Each takes the pass after \<^verbatim>\<open>TypeMap[Ty] = nextID\<close>, and the local map
  \<^verbatim>\<open>OpRuntimeTyMap\<close> where it is used.
\<close>

text \<open>The two blocks of the pointer case that emit instructions.\<close>

definition GenerateOpTypePointer ::
  "Type \<Rightarrow> AddressSpace \<Rightarrow> SPIRVProducerPass \<Rightarrow> fatal + SPIRVProducerPass" where
  "GenerateOpTypePointer ElementType AddrSpace P =
     and_then (GetStorageClass AddrSpace) (\<lambda>SC.
     and_then (lookupType P ElementType) (\<lambda>EleTyID.
     push_back_nextID OpTypePointer [MkNum SC, MkId EleTyID] P))"

definition GenerateOpTypeRuntimeArray ::
  "DataLayout \<Rightarrow> Type \<Rightarrow> Type \<Rightarrow> SPIRVProducerPass \<times> (Type \<rightharpoonup> uint32_t)
     \<Rightarrow> fatal + SPIRVProducerPass \<times> (Type \<rightharpoonup> uint32_t)" where
  "GenerateOpTypeRuntimeArray DL PTy ElementType = (\<lambda>(P, OpRuntimeTyMap).
     and_then (lookupType P ElementType) (\<lambda>EleTyID.
     let OpTypeRuntimeArrayID = nextID P in
     if OpRuntimeTyMap PTy \<noteq> None
     then Inl (AssertionFailed ''0 == OpRuntimeTyMap.count(Ty)'')
     else
     and_then (push_back_nextID OpTypeRuntimeArray [MkId EleTyID] P) (\<lambda>P1.
     Inr (insert_decorations
            [SPIRVInstruction_Ops OpDecorate
               [MkId OpTypeRuntimeArrayID, MkNum DecorationArrayStride,
                MkNum (of_nat (getTypeAllocSize DL ElementType))]] P1,
          OpRuntimeTyMap(PTy \<mapsto> OpTypeRuntimeArrayID)))))"

definition GenerateSPIRVTypes_Pointer ::
  "DataLayout \<Rightarrow> Type \<Rightarrow> Type \<Rightarrow> AddressSpace \<Rightarrow> SPIRVProducerPass \<times> (Type \<rightharpoonup> uint32_t)
     \<Rightarrow> fatal + SPIRVProducerPass \<times> (Type \<rightharpoonup> uint32_t)" where
  "GenerateSPIRVTypes_Pointer DL PTy ElementType AS = (\<lambda>(P, OpRuntimeTyMap).
     let GlobalTy = PointerTy ElementType AS_Global;
         ConstantTy = PointerTy ElementType AS_Constant
     in
     if AS = AS_Constant \<and> TypeMap P GlobalTy \<noteq> None
     then Inr (P\<lparr>TypeMap := (TypeMap P)(PTy := TypeMap P GlobalTy)\<rparr>, OpRuntimeTyMap)
     else
       let AddrSpace = (if AS = AS_Constant then AS_Global
                        else if AS = AS_Global then AS_Constant else AS);
           UseExistingOpTypePointer = (AS = AS_Global \<and> TypeMap P ConstantTy \<noteq> None);
           P1 = (if UseExistingOpTypePointer
                 then P\<lparr>TypeMap := (TypeMap P)(PTy := TypeMap P ConstantTy)\<rparr> else P);
           IsOpTypeRuntimeArray =
             list_ex (\<lambda>(Arg, GV). ArgType Arg = PTy \<and> AddrSpace \<noteq> AS_UniformConstant)
               (ArgumentGVMap P1);
           HasArgUser =
             list_ex (\<lambda>(Arg, GV). ArgType Arg = PTy \<and>
                 list_ex (\<lambda>U. \<not> isa_GetElementPtrInst U \<or> UserType U = PTy) (ArgUsers Arg))
               (ArgumentGVMap P1)
       in
       and_then
         (if (\<not> IsOpTypeRuntimeArray \<or> HasArgUser) \<and> \<not> UseExistingOpTypePointer
          then GenerateOpTypePointer ElementType AddrSpace P1
          else Inr P1)
         (\<lambda>P2.
            if IsOpTypeRuntimeArray
            then GenerateOpTypeRuntimeArray DL PTy ElementType (P2, OpRuntimeTyMap)
            else Inr (P2, OpRuntimeTyMap)))"

text \<open>The member ids of a struct: the loop over \<^verbatim>\<open>STy->elements()\<close>.\<close>

fun StructMemberIDs ::
  "SPIRVProducerPass \<Rightarrow> (Type \<rightharpoonup> uint32_t) \<Rightarrow> Type list \<Rightarrow> fatal + SPIRVOperand list" where
  "StructMemberIDs P OpRuntimeTyMap [] = Inr []"
| "StructMemberIDs P OpRuntimeTyMap (EleTy # EleTys) =
     and_then (lookupType P EleTy) (\<lambda>EleTyID0.
     and_then
       (case EleTy of
          PointerTy T AS \<Rightarrow>
            if list_ex (\<lambda>(Arg, GV). ArgType Arg = EleTy) (ArgumentGVMap P)
            then (case OpRuntimeTyMap EleTy of
                    None \<Rightarrow> Inl (AssertionFailed ''0 != OpRuntimeTyMap.count(EleTy)'')
                  | Some i \<Rightarrow> Inr i)
            else Inr EleTyID0
        | _ \<Rightarrow> Inr EleTyID0) (\<lambda>EleTyID.
     and_then (StructMemberIDs P OpRuntimeTyMap EleTys) (\<lambda>Ops.
     Inr (MkId EleTyID # Ops))))"

text \<open>
  The loop over \<^verbatim>\<open>ArgGVMap\<close> that decorates a struct wrapping a kernel argument:
  whether some global variable of the map points to the struct.
  \<^verbatim>\<open>cast<PointerType>\<close> asserts that the type of the variable is a pointer.
\<close>

fun isArgumentStruct :: "Type \<Rightarrow> (Argument \<times> GlobalVariable) list \<Rightarrow> fatal + bool" where
  "isArgumentStruct STy [] = Inr False"
| "isArgumentStruct STy ((Arg, GV) # ArgGVs) =
     (case GVType GV of
        PointerTy ArgTy AS \<Rightarrow> if ArgTy = STy then Inr True else isArgumentStruct STy ArgGVs
      | _ \<Rightarrow> Inl (AssertionFailed ''cast<PointerType>(ArgGVTy)''))"

definition GenerateSPIRVTypes_Struct ::
  "DataLayout \<Rightarrow> Type \<Rightarrow> string \<Rightarrow> bool \<Rightarrow> Type list \<Rightarrow> (Type \<rightharpoonup> uint32_t)
     \<Rightarrow> SPIRVProducerPass \<Rightarrow> fatal + SPIRVProducerPass" where
  "GenerateSPIRVTypes_Struct DL STy name opaque elements OpRuntimeTyMap P =
     (if opaque \<and> name = ''opencl.sampler_t''
      then push_back_nextID OpTypeSampler [] P
      else if opaque \<and> (name = ''opencl.image2d_ro_t'' \<or> name = ''opencl.image2d_wo_t''
                        \<or> name = ''opencl.image3d_ro_t'' \<or> name = ''opencl.image3d_wo_t'')
      then and_then (lookupType P FloatTy) (\<lambda>SampledTyID.
           let DimID = (if name = ''opencl.image3d_ro_t'' \<or> name = ''opencl.image3d_wo_t''
                        then Dim3D else Dim2D);
               Sampled = (if name = ''opencl.image2d_wo_t'' \<or> name = ''opencl.image3d_wo_t''
                          then 2 else 1)
           in push_back_nextID OpTypeImage
                [MkId SampledTyID, MkNum DimID, MkNum 0, MkNum 0, MkNum 0, MkNum Sampled,
                 MkNum ImageFormatUnknown] P)
      else and_then (StructMemberIDs P OpRuntimeTyMap elements) (\<lambda>Ops.
           let STyID = nextID P in
           and_then (push_back_nextID OpTypeStruct Ops P) (\<lambda>P1.
           let MemberDecos =
                 map (\<lambda>MemberIdx. SPIRVInstruction_Ops OpMemberDecorate
                        [MkId STyID, MkNum (of_nat MemberIdx), MkNum DecorationOffset,
                         MkNum (of_nat (getElementOffset DL STy MemberIdx))])
                   [0 ..< length elements]
           in and_then (isArgumentStruct STy (ArgumentGVMap P1)) (\<lambda>isArg.
              Inr (insert_decorations
                     (MemberDecos @
                      (if isArg
                       then [SPIRVInstruction_Ops OpDecorate [MkId STyID, MkNum DecorationBlock]]
                       else [])) P1)))))"

definition GenerateSPIRVTypes_Integer ::
  "Type \<Rightarrow> uint32_t \<Rightarrow> SPIRVProducerPass \<Rightarrow> fatal + SPIRVProducerPass" where
  "GenerateSPIRVTypes_Integer Ty BitWidth0 P =
     (if BitWidth0 = 1 then push_back_nextID OpTypeBool [] P
      else
        let aliasToWidth = (if BitWidth0 = 8 then 32 else if BitWidth0 = 32 then 8 else 0);
            BitWidth = (if BitWidth0 = 8 then 32 else BitWidth0);
            otherType = IntegerTy aliasToWidth
        in
        if aliasToWidth \<noteq> 0 \<and> TypeMap P otherType \<noteq> None
        then Inr (P\<lparr>TypeMap := (TypeMap P)(Ty := TypeMap P otherType)\<rparr>)
        else
          let P1 = (if aliasToWidth \<noteq> 0
                    then P\<lparr>TypeMap := (TypeMap P)(otherType \<mapsto> nextID P)\<rparr> else P)
          in push_back_nextID OpTypeInt [MkNum BitWidth, MkNum 0] P1)"

definition GenerateSPIRVTypes_Float ::
  "uint32_t \<Rightarrow> SPIRVProducerPass \<Rightarrow> fatal + SPIRVProducerPass" where
  "GenerateSPIRVTypes_Float PrimitiveSizeInBits P =
     (let WidthOp = SPIRVOperand_Num LITERAL_INTEGER PrimitiveSizeInBits
      in push_back_nextID OpTypeFloat [WidthOp] P)"

text \<open>\<^verbatim>\<open>UniqueVector::insert\<close>: append unless present.\<close>

definition UniqueVector_insert :: "'a \<Rightarrow> 'a list \<Rightarrow> 'a list" where
  "UniqueVector_insert x xs = (if x \<in> set xs then xs else xs @ [x])"

definition GenerateSPIRVTypes_Array ::
  "Type \<Rightarrow> Type \<Rightarrow> nat \<Rightarrow> SPIRVProducerPass \<Rightarrow> fatal + SPIRVProducerPass" where
  "GenerateSPIRVTypes_Array Ty ElementType Length P =
     and_then (lookupType P (IntegerTy 32)) (\<lambda>ResTyID.
     if \<not> Length < 2 ^ 32 - 1 then Inl (AssertionFailed ''Length < UINT32_MAX'')
     else
     let CstLength = ConstantV (ConstantInt 32 Length);
         LengthID = nextID P;
         P1 = P\<lparr>AllocatedValueMap := (AllocatedValueMap P)(CstLength \<mapsto> nextID P),
                ValueMap := (ValueMap P)(CstLength \<mapsto> nextID P)\<rparr>
     in
     and_then (push_back_nextID OpConstant [MkId ResTyID, MkNum (of_nat Length)] P1) (\<lambda>P2.
     let P3 = P2\<lparr>TypesNeedingArrayStride :=
                   UniqueVector_insert Ty (TypesNeedingArrayStride P2)\<rparr>
     in
     and_then (lookupType P3 ElementType) (\<lambda>EleTyID.
     let P4 = P3\<lparr>TypeMap := (TypeMap P3)(Ty \<mapsto> nextID P3)\<rparr>
     in push_back_nextID OpTypeArray [MkId EleTyID, MkId LengthID] P4)))"

definition GenerateSPIRVTypes_Vector ::
  "Type \<Rightarrow> Type \<Rightarrow> uint32_t \<Rightarrow> SPIRVProducerPass \<Rightarrow> fatal + SPIRVProducerPass" where
  "GenerateSPIRVTypes_Vector Ty ElementType NumElements P =
     (if ElementType = IntegerTy 8
      then (if NumElements = 4
            then and_then (lookupType P ElementType) (\<lambda>EleTyID.
                 Inr (P\<lparr>TypeMap := (TypeMap P)(Ty \<mapsto> EleTyID)\<rparr>))
            else Inl (Unreachable ''Support above i8 vector type''))
      else and_then (lookupType P ElementType) (\<lambda>EleTyID.
           push_back_nextID OpTypeVector [MkId EleTyID, MkNum NumElements] P))"

text \<open>The parameter type ids of a function type: a pointer to an opaque struct is
  looked up as the struct.\<close>

fun FunctionParamIDs :: "SPIRVProducerPass \<Rightarrow> Type list \<Rightarrow> fatal + SPIRVOperand list" where
  "FunctionParamIDs P [] = Inr []"
| "FunctionParamIDs P (ParamTy0 # ParamTys) =
     (let ParamTy = (case ParamTy0 of
                       PointerTy PointeeTy AS \<Rightarrow>
                         if isOpaqueStructTy PointeeTy then PointeeTy else ParamTy0
                     | _ \<Rightarrow> ParamTy0)
      in and_then (lookupType P ParamTy) (\<lambda>ParamTyID.
         and_then (FunctionParamIDs P ParamTys) (\<lambda>Ops.
         Inr (MkId ParamTyID # Ops))))"

definition GenerateSPIRVTypes_Function ::
  "Type \<Rightarrow> Type list \<Rightarrow> SPIRVProducerPass \<Rightarrow> fatal + SPIRVProducerPass" where
  "GenerateSPIRVTypes_Function ReturnType ParamTypes P =
     and_then (lookupType P ReturnType) (\<lambda>RetTyID.
     and_then (FunctionParamIDs P ParamTypes) (\<lambda>Ops.
     push_back_nextID OpTypeFunction (MkId RetTyID # Ops) P))"

text \<open>One iteration of the loop over the type list.\<close>

definition GenerateSPIRVTypes_body ::
  "DataLayout \<Rightarrow> Type \<Rightarrow> SPIRVProducerPass \<times> (Type \<rightharpoonup> uint32_t)
     \<Rightarrow> fatal + SPIRVProducerPass \<times> (Type \<rightharpoonup> uint32_t)" where
  "GenerateSPIRVTypes_body DL Ty = (\<lambda>(P0, OpRuntimeTyMap).
     let P = P0\<lparr>TypeMap := (TypeMap P0)(Ty \<mapsto> nextID P0)\<rparr>;
         keep = (\<lambda>r. and_then r (\<lambda>P'. Inr (P', OpRuntimeTyMap)))
     in case Ty of
          OtherTy n \<Rightarrow> Inl (Unreachable ''Unsupported type???'')
        | MetadataTy \<Rightarrow> Inr (P, OpRuntimeTyMap)
        | LabelTy \<Rightarrow> Inr (P, OpRuntimeTyMap)
        | PointerTy ElementType AS \<Rightarrow>
            GenerateSPIRVTypes_Pointer DL Ty ElementType AS (P, OpRuntimeTyMap)
        | StructTy name opaque elements \<Rightarrow>
            keep (GenerateSPIRVTypes_Struct DL Ty name opaque elements OpRuntimeTyMap P)
        | IntegerTy BitWidth \<Rightarrow> keep (GenerateSPIRVTypes_Integer Ty BitWidth P)
        | HalfTy \<Rightarrow> keep (GenerateSPIRVTypes_Float 16 P)
        | FloatTy \<Rightarrow> keep (GenerateSPIRVTypes_Float 32 P)
        | DoubleTy \<Rightarrow> keep (GenerateSPIRVTypes_Float 64 P)
        | ArrayTy ElementType Length \<Rightarrow> keep (GenerateSPIRVTypes_Array Ty ElementType Length P)
        | VectorTy ElementType NumElements \<Rightarrow>
            keep (GenerateSPIRVTypes_Vector Ty ElementType NumElements P)
        | VoidTy \<Rightarrow> keep (push_back_nextID OpTypeVoid [] P)
        | FunctionTy ReturnType ParamTypes \<Rightarrow>
            keep (GenerateSPIRVTypes_Function ReturnType ParamTypes P))"

fun GenerateSPIRVTypes_loop ::
  "DataLayout \<Rightarrow> Type list \<Rightarrow> SPIRVProducerPass \<times> (Type \<rightharpoonup> uint32_t)
     \<Rightarrow> fatal + SPIRVProducerPass \<times> (Type \<rightharpoonup> uint32_t)" where
  "GenerateSPIRVTypes_loop DL [] S = Inr S"
| "GenerateSPIRVTypes_loop DL (Ty # Tys) S =
     and_then (GenerateSPIRVTypes_body DL Ty S) (GenerateSPIRVTypes_loop DL Tys)"

text \<open>
  \<^verbatim>\<open>TypeMap[Ty]\<close> read through the indexing operator of \<^verbatim>\<open>DenseMap\<close>: a missing key
  is entered with the value 0.
\<close>

definition TypeMap_index :: "Type \<Rightarrow> SPIRVProducerPass \<Rightarrow> uint32_t \<times> SPIRVProducerPass" where
  "TypeMap_index Ty P =
     (case TypeMap P Ty of
        None \<Rightarrow> (0, P\<lparr>TypeMap := (TypeMap P)(Ty \<mapsto> 0)\<rparr>)
      | Some i \<Rightarrow> (i, P))"

text \<open>The loop that emits \<^verbatim>\<open>OpTypeSampledImage\<close> and updates \<^verbatim>\<open>ImageTypeMap\<close>.\<close>

fun GenerateSPIRVTypes_SampledImages ::
  "(Type \<times> uint32_t) list \<Rightarrow> SPIRVProducerPass \<Rightarrow> fatal + SPIRVProducerPass" where
  "GenerateSPIRVTypes_SampledImages [] P = Inr (P\<lparr>ImageTypeMap := []\<rparr>)"
| "GenerateSPIRVTypes_SampledImages ((ImgTy, old) # ImageTypes) P =
     and_then (push_back_nextID OpTypeSampledImage [MkId (fst (TypeMap_index ImgTy P))]
                 (snd (TypeMap_index ImgTy P))) (\<lambda>P2.
     and_then (GenerateSPIRVTypes_SampledImages ImageTypes P2) (\<lambda>P3.
     Inr (P3\<lparr>ImageTypeMap := (ImgTy, nextID P) # ImageTypeMap P3\<rparr>)))"

text \<open>
  The loop over the pointer-to-local arguments.  An argument without an entry in
  \<^verbatim>\<open>LocalArgMap\<close> would get a default one, whose ids are 0: the first instruction
  built from it stops the translation.
\<close>

fun GenerateSPIRVTypes_LocalArgs ::
  "Argument list \<Rightarrow> SPIRVProducerPass \<Rightarrow> fatal + SPIRVProducerPass" where
  "GenerateSPIRVTypes_LocalArgs [] P = Inr P"
| "GenerateSPIRVTypes_LocalArgs (arg # args) P =
     (case LocalArgMap P (ArgValue arg) of
        None \<Rightarrow> and_then (lookupType P (IntegerTy 32)) (\<lambda>i32.
                 and_then (SPIRVInstruction_ResID OpSpecConstant 0 [MkId i32, MkNum 1])
                   (\<lambda>Inst. Inr P))
      | Some arg_info \<Rightarrow>
          and_then (lookupType P (IntegerTy 32)) (\<lambda>i32.
          and_then (push_back_ResID OpSpecConstant (array_size_id arg_info)
                      [MkId i32, MkNum 1] P) (\<lambda>P1.
          and_then (lookupType P1 (elem_type arg_info)) (\<lambda>elem_ty_id.
          if elem_ty_id = 0 then Inl (AssertionFailed ''elem_ty_id'')
          else
          and_then (push_back_ResID OpTypeArray (array_type_id arg_info)
                      [MkId elem_ty_id, MkId (array_size_id arg_info)] P1) (\<lambda>P2.
          and_then (push_back_ResID OpTypePointer (ptr_array_type_id arg_info)
                      [MkNum StorageClassWorkgroup, MkId (array_type_id arg_info)] P2) (\<lambda>P3.
          GenerateSPIRVTypes_LocalArgs args P3))))))"

definition GenerateSPIRVTypes :: "DataLayout \<Rightarrow> SPIRVProducerPass \<Rightarrow> fatal + SPIRVProducerPass" where
  "GenerateSPIRVTypes DL P =
     and_then (GenerateSPIRVTypes_loop DL (Types P) (P, Map.empty)) (\<lambda>(P1, OpRuntimeTyMap).
     and_then (GenerateSPIRVTypes_SampledImages (ImageTypeMap P1) P1) (\<lambda>P2.
     GenerateSPIRVTypes_LocalArgs (LocalArgs P2) P2))"

subsection \<open>Emission of constants\<close>

text \<open>
  \<^verbatim>\<open>VMap[V]\<close> read through the indexing operator of \<^verbatim>\<open>DenseMap\<close>: a missing key is
  entered with the value 0.
\<close>

definition ValueMap_index :: "Value \<Rightarrow> SPIRVProducerPass \<Rightarrow> uint32_t \<times> SPIRVProducerPass" where
  "ValueMap_index V P =
     (case ValueMap P V of
        None \<Rightarrow> (0, P\<lparr>ValueMap := (ValueMap P)(V \<mapsto> 0)\<rparr>)
      | Some i \<Rightarrow> (i, P))"

text \<open>The ids of a list of values, read one after the other.\<close>

fun MkIds :: "Value list \<Rightarrow> SPIRVProducerPass \<Rightarrow> SPIRVOperand list \<times> SPIRVProducerPass" where
  "MkIds [] P = ([], P)"
| "MkIds (V # Vs) P =
     (let (i, P1) = ValueMap_index V P; (Ops, P2) = MkIds Vs P1 in (MkId i # Ops, P2))"

















subsection \<open>Binary operators\<close>

text \<open>
  \<^verbatim>\<open>GetSPIRVBinaryOpcode\<close>: the three logical opcodes for the type \<^verbatim>\<open>i1\<close>, and the
  \<^verbatim>\<open>std::map\<close> otherwise, with its assertion.
\<close>

definition BinaryOpcodeMap :: "(BinaryOps \<times> Op) list" where
  "BinaryOpcodeMap =
     [(Add, OpIAdd), (FAdd, OpFAdd), (Sub, OpISub), (FSub, OpFSub), (Mul, OpIMul),
      (FMul, OpFMul), (UDiv, OpUDiv), (SDiv, OpSDiv), (FDiv, OpFDiv), (URem, OpUMod),
      (SRem, OpSRem), (FRem, OpFRem), (Or, OpBitwiseOr), (Xor, OpBitwiseXor),
      (And, OpBitwiseAnd), (Shl, OpShiftLeftLogical), (LShr, OpShiftRightLogical),
      (AShr, OpShiftRightArithmetic)]"

definition GetSPIRVBinaryOpcode :: "BinaryOps \<Rightarrow> Type \<Rightarrow> fatal + Op" where
  "GetSPIRVBinaryOpcode Opc Ty =
     (if Ty = IntegerTy 1 \<and> Opc = Or then Inr OpLogicalOr
      else if Ty = IntegerTy 1 \<and> Opc = And then Inr OpLogicalAnd
      else if Ty = IntegerTy 1 \<and> Opc = Xor then Inr OpLogicalNotEqual
      else case map_of BinaryOpcodeMap Opc of
             None \<Rightarrow> Inl (AssertionFailed ''0 != Map.count(I.getOpcode())'')
           | Some SPIRVOpcode \<Rightarrow> Inr SPIRVOpcode)"

text \<open>
  \<^verbatim>\<open>GenerateInstruction\<close> for an instruction \<open>I\<close> that is a \<^verbatim>\<open>BinaryOperator\<close>: the
  registration of the instruction in the value map, then the branch
  \<^verbatim>\<open>isa<BinaryOperator>(I)\<close> of the default case of the switch (a binary operator is no
  cast and has no case of its own).
\<close>

definition GenerateInstruction_Register :: "Value \<Rightarrow> SPIRVProducerPass \<Rightarrow> SPIRVProducerPass" where
  "GenerateInstruction_Register I P =
     (let (i, P1) = ValueMap_index I P
      in if 0 = i then P1\<lparr>ValueMap := (ValueMap P1)(I \<mapsto> nextID P1)\<rparr> else P1)"

definition GenerateInstruction_BinaryOperator ::
  "Value \<Rightarrow> BinaryOps \<Rightarrow> Type \<Rightarrow> Value \<Rightarrow> Value \<Rightarrow> SPIRVProducerPass
     \<Rightarrow> fatal + SPIRVProducerPass" where
  "GenerateInstruction_BinaryOperator I Opc Ty Operand0 Operand1 P0 =
     (let P = GenerateInstruction_Register I P0 in
      if Opc = Xor \<and> Ty = IntegerTy 1 \<and> (isa_Constant Operand0 \<or> isa_Constant Operand1)
      then
        and_then (lookupType P Ty) (\<lambda>TyID.
        let CondV = (if isa_Constant Operand0 then Operand1 else Operand0);
            CondID = ValueMap_index CondV P
        in push_back_nextID OpLogicalNot [MkId TyID, MkId (fst CondID)] (snd CondID))
      else
        and_then (lookupType P Ty) (\<lambda>TyID.
        let ID0 = ValueMap_index Operand0 P;
            ID1 = ValueMap_index Operand1 (snd ID0)
        in and_then (GetSPIRVBinaryOpcode Opc Ty) (\<lambda>SPIRVOpcode.
           push_back_nextID SPIRVOpcode [MkId TyID, MkId (fst ID0), MkId (fst ID1)] (snd ID1))))"

subsection \<open>Extended instructions\<close>

text \<open>The enumerators of \<^verbatim>\<open>GLSL.std.450.h\<close> that the pass uses.\<close>

definition kGlslExtInstBad :: uint32_t where "kGlslExtInstBad = 0"
definition ExtInstRound :: uint32_t where "ExtInstRound = 1"
definition ExtInstTrunc :: uint32_t where "ExtInstTrunc = 3"
definition ExtInstFAbs :: uint32_t where "ExtInstFAbs = 4"
definition ExtInstSAbs :: uint32_t where "ExtInstSAbs = 5"
definition ExtInstFSign :: uint32_t where "ExtInstFSign = 6"
definition ExtInstFloor :: uint32_t where "ExtInstFloor = 8"
definition ExtInstCeil :: uint32_t where "ExtInstCeil = 9"
definition ExtInstFract :: uint32_t where "ExtInstFract = 10"
definition ExtInstRadians :: uint32_t where "ExtInstRadians = 11"
definition ExtInstDegrees :: uint32_t where "ExtInstDegrees = 12"
definition ExtInstSin :: uint32_t where "ExtInstSin = 13"
definition ExtInstCos :: uint32_t where "ExtInstCos = 14"
definition ExtInstTan :: uint32_t where "ExtInstTan = 15"
definition ExtInstAsin :: uint32_t where "ExtInstAsin = 16"
definition ExtInstAcos :: uint32_t where "ExtInstAcos = 17"
definition ExtInstAtan :: uint32_t where "ExtInstAtan = 18"
definition ExtInstSinh :: uint32_t where "ExtInstSinh = 19"
definition ExtInstCosh :: uint32_t where "ExtInstCosh = 20"
definition ExtInstTanh :: uint32_t where "ExtInstTanh = 21"
definition ExtInstAsinh :: uint32_t where "ExtInstAsinh = 22"
definition ExtInstAcosh :: uint32_t where "ExtInstAcosh = 23"
definition ExtInstAtanh :: uint32_t where "ExtInstAtanh = 24"
definition ExtInstAtan2 :: uint32_t where "ExtInstAtan2 = 25"
definition ExtInstPow :: uint32_t where "ExtInstPow = 26"
definition ExtInstExp :: uint32_t where "ExtInstExp = 27"
definition ExtInstLog :: uint32_t where "ExtInstLog = 28"
definition ExtInstExp2 :: uint32_t where "ExtInstExp2 = 29"
definition ExtInstLog2 :: uint32_t where "ExtInstLog2 = 30"
definition ExtInstSqrt :: uint32_t where "ExtInstSqrt = 31"
definition ExtInstInverseSqrt :: uint32_t where "ExtInstInverseSqrt = 32"
definition ExtInstFMin :: uint32_t where "ExtInstFMin = 37"
definition ExtInstUMin :: uint32_t where "ExtInstUMin = 38"
definition ExtInstSMin :: uint32_t where "ExtInstSMin = 39"
definition ExtInstFMax :: uint32_t where "ExtInstFMax = 40"
definition ExtInstUMax :: uint32_t where "ExtInstUMax = 41"
definition ExtInstSMax :: uint32_t where "ExtInstSMax = 42"
definition ExtInstFClamp :: uint32_t where "ExtInstFClamp = 43"
definition ExtInstUClamp :: uint32_t where "ExtInstUClamp = 44"
definition ExtInstSClamp :: uint32_t where "ExtInstSClamp = 45"
definition ExtInstFMix :: uint32_t where "ExtInstFMix = 46"
definition ExtInstStep :: uint32_t where "ExtInstStep = 48"
definition ExtInstFma :: uint32_t where "ExtInstFma = 50"
definition ExtInstFrexp :: uint32_t where "ExtInstFrexp = 51"
definition ExtInstLdexp :: uint32_t where "ExtInstLdexp = 53"
definition ExtInstPackHalf2x16 :: uint32_t where "ExtInstPackHalf2x16 = 58"
definition ExtInstUnpackHalf2x16 :: uint32_t where "ExtInstUnpackHalf2x16 = 62"
definition ExtInstLength :: uint32_t where "ExtInstLength = 66"
definition ExtInstDistance :: uint32_t where "ExtInstDistance = 67"
definition ExtInstCross :: uint32_t where "ExtInstCross = 68"
definition ExtInstNormalize :: uint32_t where "ExtInstNormalize = 69"
definition ExtInstFindUMsb :: uint32_t where "ExtInstFindUMsb = 75"

text \<open>\<^verbatim>\<open>llvm::StringSwitch\<close>: the first case that matches gives the result.\<close>

datatype StringSwitchCase = Case string uint32_t | StartsWith string uint32_t

definition startswith :: "string \<Rightarrow> string \<Rightarrow> bool" where
  "startswith Name Prefix = (take (length Prefix) Name = Prefix)"

fun StringSwitch :: "string \<Rightarrow> StringSwitchCase list \<Rightarrow> uint32_t \<Rightarrow> uint32_t" where
  "StringSwitch Name [] Default = Default"
| "StringSwitch Name (Case S R # Cases) Default =
     (if Name = S then R else StringSwitch Name Cases Default)"
| "StringSwitch Name (StartsWith S R # Cases) Default =
     (if startswith Name S then R else StringSwitch Name Cases Default)"

definition getExtInstEnum :: "string \<Rightarrow> uint32_t" where
  "getExtInstEnum Name = StringSwitch Name
     [Case ''_Z3absi'' ExtInstSAbs,
      Case ''_Z3absDv2_i'' ExtInstSAbs,
      Case ''_Z3absDv3_i'' ExtInstSAbs,
      Case ''_Z3absDv4_i'' ExtInstSAbs,
      Case ''_Z5clampiii'' ExtInstSClamp,
      Case ''_Z5clampDv2_iS_S_'' ExtInstSClamp,
      Case ''_Z5clampDv3_iS_S_'' ExtInstSClamp,
      Case ''_Z5clampDv4_iS_S_'' ExtInstSClamp,
      Case ''_Z5clampjjj'' ExtInstUClamp,
      Case ''_Z5clampDv2_jS_S_'' ExtInstUClamp,
      Case ''_Z5clampDv3_jS_S_'' ExtInstUClamp,
      Case ''_Z5clampDv4_jS_S_'' ExtInstUClamp,
      Case ''_Z5clampfff'' ExtInstFClamp,
      Case ''_Z5clampDv2_fS_S_'' ExtInstFClamp,
      Case ''_Z5clampDv3_fS_S_'' ExtInstFClamp,
      Case ''_Z5clampDv4_fS_S_'' ExtInstFClamp,
      Case ''_Z3maxii'' ExtInstSMax,
      Case ''_Z3maxDv2_iS_'' ExtInstSMax,
      Case ''_Z3maxDv3_iS_'' ExtInstSMax,
      Case ''_Z3maxDv4_iS_'' ExtInstSMax,
      Case ''_Z3maxjj'' ExtInstUMax,
      Case ''_Z3maxDv2_jS_'' ExtInstUMax,
      Case ''_Z3maxDv3_jS_'' ExtInstUMax,
      Case ''_Z3maxDv4_jS_'' ExtInstUMax,
      Case ''_Z3maxff'' ExtInstFMax,
      Case ''_Z3maxDv2_fS_'' ExtInstFMax,
      Case ''_Z3maxDv3_fS_'' ExtInstFMax,
      Case ''_Z3maxDv4_fS_'' ExtInstFMax,
      StartsWith ''_Z4fmax'' ExtInstFMax,
      Case ''_Z3minii'' ExtInstSMin,
      Case ''_Z3minDv2_iS_'' ExtInstSMin,
      Case ''_Z3minDv3_iS_'' ExtInstSMin,
      Case ''_Z3minDv4_iS_'' ExtInstSMin,
      Case ''_Z3minjj'' ExtInstUMin,
      Case ''_Z3minDv2_jS_'' ExtInstUMin,
      Case ''_Z3minDv3_jS_'' ExtInstUMin,
      Case ''_Z3minDv4_jS_'' ExtInstUMin,
      Case ''_Z3minff'' ExtInstFMin,
      Case ''_Z3minDv2_fS_'' ExtInstFMin,
      Case ''_Z3minDv3_fS_'' ExtInstFMin,
      Case ''_Z3minDv4_fS_'' ExtInstFMin,
      StartsWith ''_Z4fmin'' ExtInstFMin,
      StartsWith ''_Z7degrees'' ExtInstDegrees,
      StartsWith ''_Z7radians'' ExtInstRadians,
      StartsWith ''_Z3mix'' ExtInstFMix,
      StartsWith ''_Z4acos'' ExtInstAcos,
      StartsWith ''_Z5acosh'' ExtInstAcosh,
      StartsWith ''_Z4asin'' ExtInstAsin,
      StartsWith ''_Z5asinh'' ExtInstAsinh,
      StartsWith ''_Z4atan'' ExtInstAtan,
      StartsWith ''_Z5atan2'' ExtInstAtan2,
      StartsWith ''_Z5atanh'' ExtInstAtanh,
      StartsWith ''_Z4ceil'' ExtInstCeil,
      StartsWith ''_Z3sin'' ExtInstSin,
      StartsWith ''_Z4sinh'' ExtInstSinh,
      StartsWith ''_Z8half_sin'' ExtInstSin,
      StartsWith ''_Z10native_sin'' ExtInstSin,
      StartsWith ''_Z3cos'' ExtInstCos,
      StartsWith ''_Z4cosh'' ExtInstCosh,
      StartsWith ''_Z8half_cos'' ExtInstCos,
      StartsWith ''_Z10native_cos'' ExtInstCos,
      StartsWith ''_Z3tan'' ExtInstTan,
      StartsWith ''_Z4tanh'' ExtInstTanh,
      StartsWith ''_Z8half_tan'' ExtInstTan,
      StartsWith ''_Z10native_tan'' ExtInstTan,
      StartsWith ''_Z3exp'' ExtInstExp,
      StartsWith ''_Z8half_exp'' ExtInstExp,
      StartsWith ''_Z10native_exp'' ExtInstExp,
      StartsWith ''_Z4exp2'' ExtInstExp2,
      StartsWith ''_Z9half_exp2'' ExtInstExp2,
      StartsWith ''_Z11native_exp2'' ExtInstExp2,
      StartsWith ''_Z3log'' ExtInstLog,
      StartsWith ''_Z8half_log'' ExtInstLog,
      StartsWith ''_Z10native_log'' ExtInstLog,
      StartsWith ''_Z4log2'' ExtInstLog2,
      StartsWith ''_Z9half_log2'' ExtInstLog2,
      StartsWith ''_Z11native_log2'' ExtInstLog2,
      StartsWith ''_Z4fabs'' ExtInstFAbs,
      StartsWith ''_Z5floor'' ExtInstFloor,
      StartsWith ''_Z5ldexp'' ExtInstLdexp,
      StartsWith ''_Z3pow'' ExtInstPow,
      StartsWith ''_Z4powr'' ExtInstPow,
      StartsWith ''_Z9half_powr'' ExtInstPow,
      StartsWith ''_Z11native_powr'' ExtInstPow,
      StartsWith ''_Z5round'' ExtInstRound,
      StartsWith ''_Z4sqrt'' ExtInstSqrt,
      StartsWith ''_Z9half_sqrt'' ExtInstSqrt,
      StartsWith ''_Z11native_sqrt'' ExtInstSqrt,
      StartsWith ''_Z5rsqrt'' ExtInstInverseSqrt,
      StartsWith ''_Z10half_rsqrt'' ExtInstInverseSqrt,
      StartsWith ''_Z12native_rsqrt'' ExtInstInverseSqrt,
      StartsWith ''_Z5trunc'' ExtInstTrunc,
      StartsWith ''_Z5frexp'' ExtInstFrexp,
      StartsWith ''_Z4sign'' ExtInstFSign,
      StartsWith ''_Z6length'' ExtInstLength,
      StartsWith ''_Z8distance'' ExtInstDistance,
      StartsWith ''_Z4step'' ExtInstStep,
      Case ''_Z5crossDv3_fS_'' ExtInstCross,
      StartsWith ''_Z9normalize'' ExtInstNormalize,
      StartsWith ''llvm.fmuladd.'' ExtInstFma,
      Case ''spirv.unpack.v2f16'' ExtInstUnpackHalf2x16,
      Case ''spirv.pack.v2f16'' ExtInstPackHalf2x16,
      Case ''clspv.fract.f'' ExtInstFract,
      Case ''clspv.fract.v2f'' ExtInstFract,
      Case ''clspv.fract.v3f'' ExtInstFract,
      Case ''clspv.fract.v4f'' ExtInstFract]
     kGlslExtInstBad"

definition getIndirectExtInstEnum :: "string \<Rightarrow> uint32_t" where
  "getIndirectExtInstEnum Name = StringSwitch Name
     [StartsWith ''_Z3clz'' ExtInstFindUMsb,
      Case ''_Z6acospif'' ExtInstAcos,
      Case ''_Z6acospiDv2_f'' ExtInstAcos,
      Case ''_Z6acospiDv3_f'' ExtInstAcos,
      Case ''_Z6acospiDv4_f'' ExtInstAcos,
      Case ''_Z6asinpif'' ExtInstAsin,
      Case ''_Z6asinpiDv2_f'' ExtInstAsin,
      Case ''_Z6asinpiDv3_f'' ExtInstAsin,
      Case ''_Z6asinpiDv4_f'' ExtInstAsin,
      Case ''_Z7atan2piff'' ExtInstAtan2,
      Case ''_Z7atan2piDv2_fS_'' ExtInstAtan2,
      Case ''_Z7atan2piDv3_fS_'' ExtInstAtan2,
      Case ''_Z7atan2piDv4_fS_'' ExtInstAtan2]
     kGlslExtInstBad"

definition getDirectOrIndirectExtInstEnum :: "string \<Rightarrow> uint32_t" where
  "getDirectOrIndirectExtInstEnum Name =
     (let direct = getExtInstEnum Name
      in if direct \<noteq> kGlslExtInstBad then direct else getIndirectExtInstEnum Name)"

subsection \<open>Deferred instructions\<close>

definition SelectionControlMaskNone :: uint32_t where "SelectionControlMaskNone = 0"

definition kCompositeConstructFunctionPrefix :: string where
  "kCompositeConstructFunctionPrefix = ''clspv.composite_construct.''"

text \<open>The bits of \<^verbatim>\<open>kOneOverPi\<close> as a 32-bit float.\<close>

definition kOneOverPi :: nat where "kOneOverPi = 1050868099"

text \<open>
  A deferred instruction is a tuple of the instruction, an iterator into the list of
  SPIR-V instructions and a result id.  The iterator is the index of its element.  The
  insertion point is the next element, or the first one after it that is no \<^verbatim>\<open>OpPhi\<close>;
  the loop that skips the \<^verbatim>\<open>OpPhi\<close> instructions does not test for the end of the list and
  reads past it when only \<^verbatim>\<open>OpPhi\<close> instructions follow.
\<close>

type_synonym DeferredInst = "Instruction \<times> nat \<times> uint32_t"

definition InsertPoint :: "nat \<Rightarrow> SPIRVInstruction list \<Rightarrow> fatal + nat" where
  "InsertPoint it Insts =
     (let ip = it + 1 in
      if ip = length Insts then Inr ip
      else
        let ip' = ip + length (takeWhile (\<lambda>Inst. Opcode Inst = OpPhi) (drop ip Insts))
        in if ip' < length Insts then Inr ip'
           else Inl (UndefinedBehaviour ''(*InsertPoint)->getOpcode() at SPIRVInstList.end()''))"

text \<open>
  \<^verbatim>\<open>SPIRVInstList.insert(InsertPoint, Inst)\<close>: the new instruction stands right before
  the element of the insertion point, which is one index further afterwards.
\<close>

definition insert_at :: "nat \<Rightarrow> SPIRVInstruction \<Rightarrow> SPIRVProducerPass \<Rightarrow> SPIRVProducerPass" where
  "insert_at ip Inst P = P\<lparr>SPIRVInsts := insert_before ip [Inst] (SPIRVInsts P)\<rparr>"

definition insert_ResID ::
  "nat \<Rightarrow> Op \<Rightarrow> uint32_t \<Rightarrow> SPIRVOperand list \<Rightarrow> SPIRVProducerPass \<Rightarrow> fatal + SPIRVProducerPass" where
  "insert_ResID ip Opc ResID Ops P =
     and_then (SPIRVInstruction_ResID Opc ResID Ops) (\<lambda>Inst. Inr (insert_at ip Inst P))"

text \<open>
  The continue target of a loop whose header is not its latch: the loop over
  \<^verbatim>\<open>L->blocks()\<close> keeps the last block other than the header that dominates the latch.
\<close>

definition FindContinueBB :: "Analyses \<Rightarrow> Loop \<Rightarrow> Value option" where
  "FindContinueBB A L =
     fold (\<lambda>BB ContinueBB.
             if BB = getHeader L then ContinueBB
             else if dominates A BB (getLoopLatch L) then Some BB else ContinueBB)
       (blocks L) None"

text \<open>
  The part of the branch case that emits the merge instruction.  It gives the state and
  the index of the insertion point afterwards.
\<close>

definition GenerateMerge ::
  "Analyses \<Rightarrow> Value \<Rightarrow> Value \<Rightarrow> (Value \<times> Value) option \<Rightarrow> nat \<Rightarrow> SPIRVProducerPass
     \<Rightarrow> fatal + nat \<times> SPIRVProducerPass" where
  "GenerateMerge A BrBB Successor0 Conditional ip P =
     (if isLoopHeader A BrBB then
        case getLoopFor A BrBB of
          None \<Rightarrow> Inl (UndefinedBehaviour ''L->getExitBlock() of a null loop'')
        | Some L \<Rightarrow>
           (case getExitBlock L of
              None \<Rightarrow> Inl (Unreachable ''Loop has multiple exits???'')
            | Some MergeBB \<Rightarrow>
                and_then
                  (if isLoopLatch L BrBB then Inr BrBB
                   else case FindContinueBB A L of
                          None \<Rightarrow> Inl (Unreachable ''Wrong continue block from loop'')
                        | Some BB \<Rightarrow> Inr BB)
                  (\<lambda>ContinueBB.
                     let MergeBBID = ValueMap_index MergeBB P;
                         ContinueBBID = ValueMap_index ContinueBB (snd MergeBBID);
                         Ops = [MkId (fst MergeBBID), MkId (fst ContinueBBID),
                                MkNum SelectionControlMaskNone]
                     in Inr (ip + 1,
                             insert_at ip (SPIRVInstruction_Ops OpLoopMerge Ops)
                               (snd ContinueBBID))))
      else
        case Conditional of
          None \<Rightarrow> Inr (ip, P)
        | Some (Condition, Successor1) \<Rightarrow>
            let HasBackEdge = (isLoopHeader A Successor0 \<or> isLoopHeader A Successor1)
            in if \<not> HasBackEdge then
                 let MergeBBID = ValueMap_index Successor1 P;
                     Ops = [MkId (fst MergeBBID), MkNum SelectionControlMaskNone]
                 in Inr (ip + 1,
                         insert_at ip (SPIRVInstruction_Ops OpSelectionMerge Ops)
                           (snd MergeBBID))
               else Inr (ip, P))"

definition GenerateBranch ::
  "Value \<Rightarrow> (Value \<times> Value) option \<Rightarrow> nat \<Rightarrow> SPIRVProducerPass \<Rightarrow> SPIRVProducerPass" where
  "GenerateBranch Successor0 Conditional ip P =
     (case Conditional of
        Some (Condition, Successor1) \<Rightarrow>
          let CondID = ValueMap_index Condition P;
              TrueBBID = ValueMap_index Successor0 (snd CondID);
              FalseBBID = ValueMap_index Successor1 (snd TrueBBID);
              Ops = [MkId (fst CondID), MkId (fst TrueBBID), MkId (fst FalseBBID)]
          in insert_at ip (SPIRVInstruction_Ops OpBranchConditional Ops) (snd FalseBBID)
      | None \<Rightarrow>
          let TargetID = ValueMap_index Successor0 P;
              Ops = [MkId (fst TargetID)]
          in insert_at ip (SPIRVInstruction_Ops OpBranch Ops) (snd TargetID))"

text \<open>The operands of a \<^verbatim>\<open>PHINode\<close>: the ids of the variable and of the parent, pair by pair.\<close>

fun PhiOperands ::
  "(Value \<times> Value) list \<Rightarrow> SPIRVProducerPass \<Rightarrow> SPIRVOperand list \<times> SPIRVProducerPass" where
  "PhiOperands [] P = ([], P)"
| "PhiOperands ((IncomingValue, IncomingBlock) # Incoming) P =
     (let VarID = ValueMap_index IncomingValue P;
          ParentID = ValueMap_index IncomingBlock (snd VarID);
          Ops = PhiOperands Incoming (snd ParentID)
      in (MkId (fst VarID) # MkId (fst ParentID) # fst Ops, snd Ops))"

text \<open>
  \<^verbatim>\<open>Call->getOperand(i)\<close> for \<open>i\<close> below the number of parameters: the operands of a call
  are its arguments, then the called function.
\<close>

definition getOperands :: "string \<Rightarrow> Value list \<Rightarrow> nat \<Rightarrow> fatal + Value list" where
  "getOperands Callee Args NumParams =
     (if NumParams \<le> length (Args @ [FunctionV Callee])
      then Inr (take NumParams (Args @ [FunctionV Callee]))
      else Inl (AssertionFailed ''getOperand() out of range!''))"

text \<open>
  The lambda \<^verbatim>\<open>generate_extra_inst\<close>, for the instruction that uses the result of an
  extended instruction.  \<^verbatim>\<open>ConstantVector::getSplat\<close> of a number that is not 0 is a
  \<^verbatim>\<open>ConstantDataVector\<close>.
\<close>

definition getSplat :: "Type \<Rightarrow> nat \<Rightarrow> Constant \<Rightarrow> Constant" where
  "getSplat resultTy v constant =
     (case resultTy of
        VectorTy ElemTy n \<Rightarrow> ConstantDataSequential resultTy (replicate (unat n) v)
      | _ \<Rightarrow> constant)"

definition generate_extra_inst ::
  "Type \<Rightarrow> uint32_t \<Rightarrow> nat \<Rightarrow> Op \<Rightarrow> nat \<Rightarrow> Constant \<Rightarrow> SPIRVProducerPass
     \<Rightarrow> fatal + SPIRVProducerPass" where
  "generate_extra_inst resultTy ResID ip opcode v constant P =
     and_then (lookupType P resultTy) (\<lambda>TyID.
     let ConstantID = ValueMap_index (ConstantV (getSplat resultTy v constant)) P;
         Ops = [MkId TyID, MkId (fst ConstantID), MkId ResID]
     in insert_ResID ip opcode (ResID + 1) Ops (snd ConstantID))"

definition isPopcount :: "string \<Rightarrow> bool" where
  "isPopcount Name =
     (Name = ''_Z8popcounti'' \<or> Name = ''_Z8popcountj'' \<or> Name = ''_Z8popcountDv2_i''
      \<or> Name = ''_Z8popcountDv3_i'' \<or> Name = ''_Z8popcountDv4_i''
      \<or> Name = ''_Z8popcountDv2_j'' \<or> Name = ''_Z8popcountDv3_j''
      \<or> Name = ''_Z8popcountDv4_j'')"

text \<open>The message that the branch of \<^verbatim>\<open>OpFunctionCall\<close> writes to \<^verbatim>\<open>errs()\<close>.\<close>

definition MissingBuiltin :: "string \<Rightarrow> string \<Rightarrow> string" where
  "MissingBuiltin Callee Call =
     ''Can't translate function call.  Missing builtin? '' @ Callee @ '' in: '' @ Call
       @ [CHR 0x0A]"

definition GenerateOpExtInst ::
  "uint32_t \<Rightarrow> Type \<Rightarrow> string \<Rightarrow> nat \<Rightarrow> Value list \<Rightarrow> nat \<Rightarrow> uint32_t
     \<Rightarrow> SPIRVProducerPass \<Rightarrow> fatal + SPIRVProducerPass" where
  "GenerateOpExtInst EInst Ty Callee NumParams Args ip ResID P =
     and_then (lookupType P Ty) (\<lambda>TyID.
     and_then (getOperands Callee Args NumParams) (\<lambda>CallOperands.
     let ArgIDs = MkIds CallOperands P;
         Ops = MkId TyID # MkId (OpExtInstImportID P) # MkNum EInst # fst ArgIDs
     in and_then (insert_ResID ip OpExtInst ResID Ops (snd ArgIDs)) (\<lambda>P1.
        let IndirectExtInst = getIndirectExtInstEnum Callee
        in if IndirectExtInst \<noteq> kGlslExtInstBad then
             if IndirectExtInst = ExtInstFindUMsb
             then generate_extra_inst Ty ResID (ip + 1) OpISub 31 (ConstantInt 32 31) P1
             else if IndirectExtInst = ExtInstAcos \<or> IndirectExtInst = ExtInstAsin
                     \<or> IndirectExtInst = ExtInstAtan2
             then generate_extra_inst Ty ResID (ip + 1) OpFMul kOneOverPi
                    (ConstantFP FloatTy kOneOverPi) P1
             else Inl (AssertionFailed ''internally inconsistent'')
           else Inr P1)))"

definition GenerateOpFunctionCall ::
  "Type \<Rightarrow> string \<Rightarrow> nat \<Rightarrow> Value list \<Rightarrow> string \<Rightarrow> nat \<Rightarrow> uint32_t
     \<Rightarrow> SPIRVProducerPass \<Rightarrow> fatal + SPIRVProducerPass" where
  "GenerateOpFunctionCall Ty Callee NumParams Args Printed ip ResID P =
     and_then (lookupType P Ty) (\<lambda>TyID.
     let CalleeID = ValueMap_index (FunctionV Callee) P;
         P1 = (if fst CalleeID = 0
               then (snd CalleeID)\<lparr>errs := errs (snd CalleeID) @ [MissingBuiltin Callee Printed]\<rparr>
               else snd CalleeID)
     in and_then (getOperands Callee Args NumParams) (\<lambda>CallOperands.
        let ArgIDs = MkIds CallOperands P1;
            Ops = MkId TyID # MkId (fst CalleeID) # fst ArgIDs
        in insert_ResID ip OpFunctionCall ResID Ops (snd ArgIDs)))"

text \<open>One iteration of the loop of \<^verbatim>\<open>HandleDeferredInstruction\<close>.\<close>

definition HandleDeferredInstruction_body ::
  "Analyses \<Rightarrow> DeferredInst \<Rightarrow> SPIRVProducerPass \<Rightarrow> fatal + SPIRVProducerPass" where
  "HandleDeferredInstruction_body A DeferredInst P =
     (case DeferredInst of (Inst, it, ResID) \<Rightarrow>
      and_then (InsertPoint it (SPIRVInsts P)) (\<lambda>ip.
      case Inst of
        BranchInst BrBB Successor0 Conditional \<Rightarrow>
          and_then (GenerateMerge A BrBB Successor0 Conditional ip P) (\<lambda>Merged.
          Inr (GenerateBranch Successor0 Conditional (fst Merged) (snd Merged)))
      | PHINode Ty Incoming \<Rightarrow>
          and_then (lookupType P Ty) (\<lambda>TyID.
          let Ops = PhiOperands Incoming P
          in insert_ResID ip OpPhi ResID (MkId TyID # fst Ops) (snd Ops))
      | CallInst Ty Callee NumParams Args Printed \<Rightarrow>
          let EInst = getDirectOrIndirectExtInstEnum Callee in
          if EInst \<noteq> 0 then GenerateOpExtInst EInst Ty Callee NumParams Args ip ResID P
          else if isPopcount Callee then
            and_then (lookupType P Ty) (\<lambda>TyID.
            and_then (getOperands Callee Args 1) (\<lambda>CallOperands.
            let BaseID = MkIds CallOperands P
            in insert_ResID ip OpBitCount ResID (MkId TyID # fst BaseID) (snd BaseID)))
          else if startswith Callee kCompositeConstructFunctionPrefix then
            and_then (lookupType P Ty) (\<lambda>TyID.
            let ArgIDs = MkIds Args P
            in insert_ResID ip OpCompositeConstruct ResID (MkId TyID # fst ArgIDs) (snd ArgIDs))
          else GenerateOpFunctionCall Ty Callee NumParams Args Printed ip ResID P
      | _ \<Rightarrow> Inr P))"

text \<open>
  The loop of \<^verbatim>\<open>HandleDeferredInstruction\<close>, from the last deferred instruction to the
  first.  The iterators were taken at the end of the list while it grew, so they are in
  ascending order, and an insertion comes after the element of its iterator: it moves
  no element that an instruction deferred earlier points to.
\<close>

fun HandleDeferredInstruction_loop ::
  "Analyses \<Rightarrow> DeferredInst list \<Rightarrow> SPIRVProducerPass \<Rightarrow> fatal + SPIRVProducerPass" where
  "HandleDeferredInstruction_loop A [] P = Inr P"
| "HandleDeferredInstruction_loop A (DeferredInst # DeferredInsts) P =
     and_then (HandleDeferredInstruction_body A DeferredInst P)
       (HandleDeferredInstruction_loop A DeferredInsts)"

definition HandleDeferredInstruction :: "Analyses \<Rightarrow> SPIRVProducerPass \<Rightarrow> fatal + SPIRVProducerPass" where
  "HandleDeferredInstruction A P = HandleDeferredInstruction_loop A (rev (DeferredInstVec P)) P"

subsection \<open>Global variables\<close>

definition BuiltInNumWorkgroups :: uint32_t where "BuiltInNumWorkgroups = 24"
definition BuiltInWorkgroupSize :: uint32_t where "BuiltInWorkgroupSize = 25"
definition BuiltInWorkgroupId :: uint32_t where "BuiltInWorkgroupId = 26"
definition BuiltInLocalInvocationId :: uint32_t where "BuiltInLocalInvocationId = 27"
definition BuiltInGlobalInvocationId :: uint32_t where "BuiltInGlobalInvocationId = 28"
definition BuiltInMax :: uint32_t where "BuiltInMax = 0x7fffffff"

definition GetBuiltin :: "string \<Rightarrow> uint32_t" where
  "GetBuiltin Name = StringSwitch Name
     [Case ''__spirv_GlobalInvocationId'' BuiltInGlobalInvocationId,
      Case ''__spirv_LocalInvocationId'' BuiltInLocalInvocationId,
      Case ''__spirv_WorkgroupSize'' BuiltInWorkgroupSize,
      Case ''__spirv_NumWorkgroups'' BuiltInNumWorkgroups,
      Case ''__spirv_WorkgroupId'' BuiltInWorkgroupId]
     BuiltInMax"

text \<open>
  \<^verbatim>\<open>getPointerElementType\<close> and \<^verbatim>\<open>getSequentialElementType\<close>, with the assertions of
  the casts they make.
\<close>

definition getPointerElementType :: "Type \<Rightarrow> fatal + Type" where
  "getPointerElementType Ty =
     (case Ty of
        PointerTy ElemTy AS \<Rightarrow> Inr ElemTy
      | _ \<Rightarrow> Inl (AssertionFailed ''cast<PointerType>() argument of incompatible type!''))"

definition getSequentialElementType :: "Type \<Rightarrow> fatal + Type" where
  "getSequentialElementType Ty =
     (case Ty of
        VectorTy ElemTy n \<Rightarrow> Inr ElemTy
      | ArrayTy ElemTy n \<Rightarrow> Inr ElemTy
      | _ \<Rightarrow> Inl (AssertionFailed ''cast<SequentialType>() argument of incompatible type!''))"

definition getPointerAddressSpace :: "Type \<Rightarrow> fatal + AddressSpace" where
  "getPointerAddressSpace Ty =
     (case Ty of
        PointerTy ElemTy AS \<Rightarrow> Inr AS
      | _ \<Rightarrow> Inl (AssertionFailed ''cast<PointerType>() argument of incompatible type!''))"

text \<open>
  The loop of \<^verbatim>\<open>GenerateGlobalVar\<close> over the functions of the module, for the builtin
  \<^verbatim>\<open>WorkgroupSize\<close>.  Its state is the previous sizes, \<^verbatim>\<open>HasMDVec\<close>, \<^verbatim>\<open>InitializerID\<close>
  and the state of the pass.  The sizes are the values of the three operands of the
  metadata, converted to 32 bits.
\<close>

record WorkgroupSizeLoop =
  PrevDimCst :: "uint32_t \<times> uint32_t \<times> uint32_t"
  HasMDVec :: "bool list"
  InitializerID :: uint32_t
  Pass :: SPIRVProducerPass

definition WorkgroupSize_body ::
  "Type \<Rightarrow> Function \<Rightarrow> WorkgroupSizeLoop \<Rightarrow> fatal + WorkgroupSizeLoop" where
  "WorkgroupSize_body ElemTy Fn S =
     (if isDeclaration Fn then Inr S
      else if getCallingConv Fn \<noteq> SPIR_KERNEL then Inr S
      else
        case reqd_work_group_size Fn of
          None \<Rightarrow> Inr (S\<lparr>HasMDVec := HasMDVec S @ [False]\<rparr>)
        | Some ((wx, x), (wy, y), (wz, z)) \<Rightarrow>
            let CurDimCst = (of_nat x, of_nat y, of_nat z) in
            if PrevDimCst S = (0xFFFFFFFF, 0xFFFFFFFF, 0xFFFFFFFF) then
              let XDimCstID = ValueMap_index (ConstantV (ConstantInt wx x)) (Pass S);
                  YDimCstID = ValueMap_index (ConstantV (ConstantInt wy y)) (snd XDimCstID);
                  ZDimCstID = ValueMap_index (ConstantV (ConstantInt wz z)) (snd YDimCstID);
                  P = snd ZDimCstID
              in and_then (lookupType P ElemTy) (\<lambda>TyID.
                 and_then
                   (push_back_nextID OpConstantComposite
                      [MkId TyID, MkId (fst XDimCstID), MkId (fst YDimCstID),
                       MkId (fst ZDimCstID)] P)
                   (\<lambda>P'. Inr \<lparr>PrevDimCst = CurDimCst, HasMDVec = HasMDVec S @ [True],
                                InitializerID = nextID P, Pass = P'\<rparr>))
            else if CurDimCst \<noteq> PrevDimCst S then
              Inl (Unreachable ''reqd_work_group_size must be the same across all kernels'')
            else Inr S)"

fun WorkgroupSize_loop ::
  "Type \<Rightarrow> Function list \<Rightarrow> WorkgroupSizeLoop \<Rightarrow> fatal + WorkgroupSizeLoop" where
  "WorkgroupSize_loop ElemTy [] S = Inr S"
| "WorkgroupSize_loop ElemTy (Fn # Fns) S =
     and_then (WorkgroupSize_body ElemTy Fn S) (WorkgroupSize_loop ElemTy Fns)"

text \<open>The check that all kernels have the same definition of the size, or none.\<close>

definition HasMD_check :: "bool list \<Rightarrow> fatal + bool" where
  "HasMD_check HasMDs =
     (case HasMDs of
        [] \<Rightarrow> Inr False
      | HasMD # Rest \<Rightarrow>
          if list_all (\<lambda>b. b = HasMD) Rest then Inr HasMD
          else Inl (Unreachable ''Kernels should have consistent work group size definition''))"

text \<open>
  The specialization constants of the three dimensions and their composite, when no
  kernel has the metadata.  It gives the id of the composite too.
\<close>

definition GenerateOpSpecConstants ::
  "Type \<Rightarrow> SPIRVProducerPass \<Rightarrow> fatal + uint32_t \<times> SPIRVProducerPass" where
  "GenerateOpSpecConstants ElemTy P =
     and_then (getSequentialElementType ElemTy) (\<lambda>SeqElemTy.
     and_then (lookupType P SeqElemTy) (\<lambda>result_type_id.
     and_then (push_back_nextID OpSpecConstant [MkId result_type_id, MkNum 1] P) (\<lambda>P1.
     and_then (push_back_nextID OpSpecConstant [MkId result_type_id, MkNum 1] P1) (\<lambda>P2.
     and_then (push_back_nextID OpSpecConstant [MkId result_type_id, MkNum 1] P2) (\<lambda>P3.
     let P4 = P3\<lparr>BuiltinDimensionVec :=
                   BuiltinDimensionVec P3 @ [nextID P, nextID P1, nextID P2]\<rparr>
     in and_then (lookupType P4 ElemTy) (\<lambda>TyID.
        and_then
          (push_back_nextID OpSpecConstantComposite
             [MkId TyID, MkId (nextID P), MkId (nextID P1), MkId (nextID P2)] P4)
          (\<lambda>P5. Inr (nextID P4, P5))))))))"

definition GenerateWorkgroupSize ::
  "Module \<Rightarrow> Type \<Rightarrow> SPIRVProducerPass \<Rightarrow> fatal + uint32_t \<times> SPIRVProducerPass" where
  "GenerateWorkgroupSize M ElemTy P =
     and_then
       (WorkgroupSize_loop ElemTy (getFunctionList M)
          \<lparr>PrevDimCst = (0xFFFFFFFF, 0xFFFFFFFF, 0xFFFFFFFF), HasMDVec = [],
           InitializerID = 0, Pass = P\<rparr>)
       (\<lambda>S.
          and_then (HasMD_check (HasMDVec S)) (\<lambda>HasMD.
          if \<not> HasMD then GenerateOpSpecConstants ElemTy (Pass S)
          else Inr (InitializerID S, Pass S)))"

text \<open>
  \<^verbatim>\<open>GenerateGlobalVar\<close>.  \<open>M\<close> is the module of the variable, \<open>in_storage_buffer\<close> the
  option \<^verbatim>\<open>clspv::Option::ModuleConstantsInStorageBuffer()\<close>, and \<open>Emit\<close> the text that
  \<^verbatim>\<open>clspv::ConstantEmitter\<close> writes for an initializer.
\<close>

definition GenerateGlobalVar ::
  "Module \<Rightarrow> bool \<Rightarrow> (Value \<Rightarrow> string) \<Rightarrow> GlobalVariable \<Rightarrow> SPIRVProducerPass
     \<Rightarrow> fatal + SPIRVProducerPass" where
  "GenerateGlobalVar M in_storage_buffer Emit GV P0 =
     (let BuiltinType = GetBuiltin (GVName GV); Ty = GVType GV in
      and_then (getPointerElementType Ty) (\<lambda>ElemTy.
      and_then
        (if BuiltInWorkgroupSize = BuiltinType then GenerateWorkgroupSize M ElemTy P0
         else Inr (0, P0))
        (\<lambda>(InitializerID0, P1).
      let P2 = P1\<lparr>ValueMap := (ValueMap P1)(GlobalVariableV (GVName GV) \<mapsto> nextID P1)\<rparr> in
      and_then (getPointerAddressSpace Ty) (\<lambda>AS.
      and_then (lookupType P2 Ty) (\<lambda>TyID.
      and_then (GetStorageClass AS) (\<lambda>SC.
      let Init = (case Initializer GV of
                    Some I \<Rightarrow> ValueMap_index I P2
                  | None \<Rightarrow> (InitializerID0, P2));
          InitializerID = fst Init;
          P3 = snd Init;
          module_scope_constant_external_init =
            (0 \<noteq> InitializerID \<and> AS = AS_Constant \<and> in_storage_buffer);
          Ops = [MkId TyID, MkNum SC]
                @ (if 0 \<noteq> InitializerID \<and> \<not> module_scope_constant_external_init
                   then [MkId InitializerID] else []);
          var_id = nextID P3
      in and_then (push_back_nextID OpVariable Ops P3) (\<lambda>P4.
         if BuiltInMax \<noteq> BuiltinType then
           let VarID = ValueMap_index (GlobalVariableV (GVName GV)) P4;
               P5 = (if BuiltInWorkgroupSize = BuiltinType
                     then (snd VarID)\<lparr>WorkgroupSizeValueID := InitializerID,
                                       WorkgroupSizeVarID := fst VarID\<rparr>
                     else snd VarID);
               ResultID = (if BuiltInWorkgroupSize = BuiltinType then InitializerID
                           else fst VarID)
           in Inr (insert_decorations
                     [SPIRVInstruction_Ops OpDecorate
                        [MkId ResultID, MkNum DecorationBuiltIn, MkNum BuiltinType]] P5)
         else if module_scope_constant_external_init then
           let descriptor_set = NextDescriptorSetIndex P4;
               P5 = P4\<lparr>NextDescriptorSetIndex := descriptor_set + 1,
                       descriptorMapOut := os_write (descriptorMapOut P4)
                         (ascii ''constant,descriptorSet,''
                          @ to_string (unat descriptor_set)
                          @ ascii '',binding,0,kind,buffer,hexbytes,''
                          @ ascii (case Initializer GV of Some I \<Rightarrow> Emit I | None \<Rightarrow> [])
                          @ ascii [CHR 0x0A])\<rparr>
           in Inr (insert_decorations
                     [SPIRVInstruction_Ops OpDecorate
                        [MkId var_id, MkNum DecorationDescriptorSet, MkNum descriptor_set],
                      SPIRVInstruction_Ops OpDecorate
                        [MkId var_id, MkNum DecorationBinding, MkNum 0]] P5)
         else Inr P4)))))))"

text \<open>The loop of \<^verbatim>\<open>runOnModule\<close> that generates the variables.\<close>

fun GenerateGlobalVars ::
  "Module \<Rightarrow> bool \<Rightarrow> (Value \<Rightarrow> string) \<Rightarrow> GlobalVariable list \<Rightarrow> SPIRVProducerPass
     \<Rightarrow> fatal + SPIRVProducerPass" where
  "GenerateGlobalVars M in_storage_buffer Emit [] P = Inr P"
| "GenerateGlobalVars M in_storage_buffer Emit (GV # GVs) P =
     and_then (GenerateGlobalVar M in_storage_buffer Emit GV P)
       (GenerateGlobalVars M in_storage_buffer Emit GVs)"

subsection \<open>Module information\<close>

definition CapabilityShader :: uint32_t where "CapabilityShader = 1"
definition CapabilityFloat16 :: uint32_t where "CapabilityFloat16 = 9"
definition CapabilityFloat64 :: uint32_t where "CapabilityFloat64 = 10"
definition CapabilityInt64 :: uint32_t where "CapabilityInt64 = 11"
definition CapabilityInt16 :: uint32_t where "CapabilityInt16 = 22"
definition CapabilityImageQuery :: uint32_t where "CapabilityImageQuery = 50"
definition CapabilityStorageImageWriteWithoutFormat :: uint32_t where
  "CapabilityStorageImageWriteWithoutFormat = 56"
definition CapabilityVariablePointers :: uint32_t where "CapabilityVariablePointers = 4442"
definition AddressingModelLogical :: uint32_t where "AddressingModelLogical = 0"
definition MemoryModelGLSL450 :: uint32_t where "MemoryModelGLSL450 = 1"
definition ExecutionModelGLCompute :: uint32_t where "ExecutionModelGLCompute = 5"
definition ExecutionModeLocalSize :: uint32_t where "ExecutionModeLocalSize = 17"
definition SourceLanguageOpenCL_C :: uint32_t where "SourceLanguageOpenCL_C = 3"

definition hasVariablePointers :: bool where
  "hasVariablePointers = True"

text \<open>The capability that a type of the type list asks for.\<close>

definition TypeCapability :: "Type \<Rightarrow> SPIRVInstruction list" where
  "TypeCapability Ty =
     (if Ty = IntegerTy 16 then [SPIRVInstruction_Ops OpCapability [MkNum CapabilityInt16]]
      else if Ty = IntegerTy 64 then [SPIRVInstruction_Ops OpCapability [MkNum CapabilityInt64]]
      else if Ty = HalfTy then [SPIRVInstruction_Ops OpCapability [MkNum CapabilityFloat16]]
      else if Ty = DoubleTy then [SPIRVInstruction_Ops OpCapability [MkNum CapabilityFloat64]]
      else case Ty of
             StructTy name opaque elems \<Rightarrow>
               if opaque \<and> (name = ''opencl.image2d_wo_t'' \<or> name = ''opencl.image3d_wo_t'')
               then [SPIRVInstruction_Ops OpCapability
                       [MkNum CapabilityStorageImageWriteWithoutFormat]]
               else []
           | _ \<Rightarrow> [])"

definition getFunction :: "Module \<Rightarrow> string \<Rightarrow> bool" where
  "getFunction M Name = list_ex (\<lambda>F. FuncName F = Name) (getFunctionList M)"

definition hasImageQuery :: "Module \<Rightarrow> bool" where
  "hasImageQuery M =
     list_ex (getFunction M)
       [''_Z15get_image_width14ocl_image2d_ro'', ''_Z15get_image_width14ocl_image2d_wo'',
        ''_Z16get_image_height14ocl_image2d_ro'', ''_Z16get_image_height14ocl_image2d_wo'']"

text \<open>
  The instructions that are inserted at the beginning of the list: the capabilities
  and the extensions.
\<close>

definition GenerateCapabilities :: "Module \<Rightarrow> SPIRVProducerPass \<Rightarrow> SPIRVInstruction list" where
  "GenerateCapabilities M P =
     [SPIRVInstruction_Ops OpCapability [MkNum CapabilityShader]]
     @ concat (map TypeCapability (Types P))
     @ (if hasImageQuery M
        then [SPIRVInstruction_Ops OpCapability [MkNum CapabilityImageQuery]] else [])
     @ (if hasVariablePointers
        then [SPIRVInstruction_Ops OpCapability [MkNum CapabilityVariablePointers],
              SPIRVInstruction_Ops OpExtension
                [MkString ''SPV_KHR_storage_buffer_storage_class''],
              SPIRVInstruction_Ops OpExtension [MkString ''SPV_KHR_variable_pointers'']]
        else [])"

text \<open>The \<^verbatim>\<open>OpEntryPoint\<close> instructions, one for each entry point.\<close>

fun GenerateEntryPoints ::
  "(Function \<times> uint32_t) list \<Rightarrow> SPIRVProducerPass
     \<Rightarrow> SPIRVInstruction list \<times> SPIRVProducerPass" where
  "GenerateEntryPoints [] P = ([], P)"
| "GenerateEntryPoints (EntryPoint # EntryPoints) P =
     (let Interfaces = MkIds (EntryPointInterfacesVec P) P;
          Ops = [MkNum ExecutionModelGLCompute, MkId (snd EntryPoint),
                 MkString (FuncName (fst EntryPoint))] @ fst Interfaces;
          Rest = GenerateEntryPoints EntryPoints (snd Interfaces)
      in (SPIRVInstruction_Ops OpEntryPoint Ops # fst Rest, snd Rest))"

text \<open>
  The \<^verbatim>\<open>OpExecutionMode\<close> instructions, one for each entry point that has the metadata
  \<^verbatim>\<open>reqd_work_group_size\<close>.
\<close>

fun GenerateExecutionModes ::
  "(Function \<times> uint32_t) list \<Rightarrow> SPIRVProducerPass \<Rightarrow> fatal + SPIRVInstruction list" where
  "GenerateExecutionModes [] P = Inr []"
| "GenerateExecutionModes (EntryPoint # EntryPoints) P =
     (case reqd_work_group_size (fst EntryPoint) of
        None \<Rightarrow> GenerateExecutionModes EntryPoints P
      | Some ((wx, x), (wy, y), (wz, z)) \<Rightarrow>
          if BuiltinDimensionVec P \<noteq> []
          then Inl (Unreachable ''Kernels should have consistent work group size definition'')
          else
            and_then (GenerateExecutionModes EntryPoints P) (\<lambda>Rest.
            Inr (SPIRVInstruction_Ops OpExecutionMode
                   [MkId (snd EntryPoint), MkNum ExecutionModeLocalSize,
                    MkNum (of_nat x), MkNum (of_nat y), MkNum (of_nat z)] # Rest)))"

text \<open>The decorations of the specialization constants of the three dimensions.\<close>

definition GenerateSpecIds :: "SPIRVProducerPass \<Rightarrow> fatal + SPIRVInstruction list" where
  "GenerateSpecIds P =
     (case BuiltinDimensionVec P of
        [] \<Rightarrow> Inr []
      | X # Y # Z # Rest \<Rightarrow>
          Inr [SPIRVInstruction_Ops OpDecorate [MkId X, MkNum DecorationSpecId, MkNum 0],
               SPIRVInstruction_Ops OpDecorate [MkId Y, MkNum DecorationSpecId, MkNum 1],
               SPIRVInstruction_Ops OpDecorate [MkId Z, MkNum DecorationSpecId, MkNum 2]]
      | _ \<Rightarrow> Inl (UndefinedBehaviour ''BuiltinDimVec[i] out of range''))"

text \<open>
  \<^verbatim>\<open>GenerateModuleInfo\<close>.  The insertion point is the first element of the list; after
  the capabilities it moves one element further when there is an \<^verbatim>\<open>OpExtInstImport\<close>.
\<close>

definition GenerateModuleInfo :: "Module \<Rightarrow> SPIRVProducerPass \<Rightarrow> fatal + SPIRVProducerPass" where
  "GenerateModuleInfo M P =
     (let Caps = GenerateCapabilities M P in
      and_then
        (if OpExtInstImportID P \<noteq> 0
         then if SPIRVInsts P = []
              then Inl (UndefinedBehaviour ''++InsertPoint at SPIRVInstList.end()'')
              else Inr (1::nat)
         else Inr 0)
        (\<lambda>skip.
      let MemModel = SPIRVInstruction_Ops OpMemoryModel
                       [MkNum AddressingModelLogical, MkNum MemoryModelGLSL450];
          EntryPoints = GenerateEntryPoints (EntryPointVec P) P;
          P1 = snd EntryPoints
      in and_then (GenerateExecutionModes (EntryPointVec P1) P1) (\<lambda>ExecModes.
         and_then (GenerateSpecIds P1) (\<lambda>SpecIds.
         let OpenSource = SPIRVInstruction_Ops OpSource
                            [MkNum SourceLanguageOpenCL_C, MkNum 120]
         in Inr (P1\<lparr>SPIRVInsts :=
                   Caps @ take skip (SPIRVInsts P1)
                   @ [MemModel] @ fst EntryPoints @ ExecModes @ [OpenSource] @ SpecIds
                   @ drop skip (SPIRVInsts P1)\<rparr>)))))"

subsection \<open>Auxiliary notions for the proofs\<close>

text \<open>
  Instructions of a given opcode and operand shape and their number in the list; what a
  step leaves alone (\<open>frame\<close>); the invariant of the loop over the type list; and a
  small module for the examples.
\<close>

definition has_shape :: "Op \<Rightarrow> (SPIRVOperand list \<Rightarrow> bool) \<Rightarrow> SPIRVInstruction \<Rightarrow> bool" where
  "has_shape Opc Q Inst = (Opcode Inst = Opc \<and> Q (Operands Inst))"

definition count_insts :: "(SPIRVInstruction \<Rightarrow> bool) \<Rightarrow> SPIRVProducerPass \<Rightarrow> nat" where
  "count_insts p P = length (filter p (SPIRVInsts P))"



definition frame :: "Op \<Rightarrow> (SPIRVOperand list \<Rightarrow> bool) \<Rightarrow> SPIRVProducerPass \<Rightarrow> SPIRVProducerPass \<Rightarrow> bool" where
  "frame Opc Q P P' \<longleftrightarrow>
      count_insts (has_shape Opc Q) P' = count_insts (has_shape Opc Q) P
      \<and> set (SPIRVInsts P) \<subseteq> set (SPIRVInsts P')"


definition DL_example :: DataLayout where
  "DL_example = \<lparr>getTypeAllocSize = (\<lambda>Ty. 4), getElementOffset = (\<lambda>Ty i. 4 * i)\<rparr>"

definition Types_example :: "SPIRVProducerPass" where
  "Types_example = (SPIRVProducerPass_ctor [] False False)
           \<lparr>Types := [IntegerTy 8, PointerTy (IntegerTy 8) AS_Global, IntegerTy 32,
                      PointerTy (IntegerTy 8) AS_Constant, VectorTy (IntegerTy 8) 4,
                      FloatTy, VectorTy FloatTy 4]\<rparr>"


definition keeps :: "Value \<Rightarrow> SPIRVProducerPass \<Rightarrow> SPIRVProducerPass \<Rightarrow> bool" where
  "keeps cur P P' \<longleftrightarrow>
     AllocatedValueMap P' = AllocatedValueMap P
     \<and> constant_i32_zero_id P' = constant_i32_zero_id P
     \<and> TypeMap P' = TypeMap P
     \<and> set (SPIRVInsts P) \<subseteq> set (SPIRVInsts P')
     \<and> (\<forall>k i. k \<noteq> cur \<longrightarrow> ValueMap P k = Some i \<longrightarrow> ValueMap P' k = Some i)"




text \<open>The id of a value: 0 when the value map has no entry for it.\<close>

definition valueID :: "SPIRVProducerPass \<Rightarrow> Value \<Rightarrow> uint32_t" where
  "valueID P V = (case ValueMap P V of None \<Rightarrow> 0 | Some i \<Rightarrow> i)"

text \<open>A state with the type \<^verbatim>\<open>i1\<close> and the ids of two arguments.\<close>

definition Xor_example :: SPIRVProducerPass where
  "Xor_example =
     (case GenerateSPIRVTypes DL_example
             ((SPIRVProducerPass_ctor [] False False)\<lparr>Types := [IntegerTy 1]\<rparr>) of
        Inl e \<Rightarrow> SPIRVProducerPass_ctor [] False False
      | Inr P \<Rightarrow>
          P\<lparr>ValueMap := [ArgumentV ''f'' 0 \<mapsto> 2, ArgumentV ''f'' 1 \<mapsto> 3], nextID := 4\<rparr>)"

text \<open>
  The blocks of a loop, other than the header, that dominate the latch, in the order of
  \<^verbatim>\<open>L->blocks()\<close>.
\<close>

definition ContinueCandidates :: "Analyses \<Rightarrow> Loop \<Rightarrow> Value list" where
  "ContinueCandidates A L =
     filter (\<lambda>BB. BB \<noteq> getHeader L \<and> dominates A BB (getLoopLatch L)) (blocks L)"

text \<open>
  A function \<open>f\<close> with a loop: the entry block 2, the header 3, the latch 4 and the exit
  block 5.  The state is the one after the body of \<open>f\<close> has been emitted, with its
  branches and calls deferred.
\<close>

definition Loop_example :: Loop where
  "Loop_example =
     \<lparr>getHeader = BasicBlockV ''f'' 3, getExitBlock = Some (BasicBlockV ''f'' 5),
      getLoopLatch = Some (BasicBlockV ''f'' 4),
      isLoopLatch = (\<lambda>BB. BB = BasicBlockV ''f'' 4),
      blocks = [BasicBlockV ''f'' 3, BasicBlockV ''f'' 4]\<rparr>"

definition Analyses_example :: Analyses where
  "Analyses_example =
     \<lparr>getLoopFor = (\<lambda>BB. if BB = BasicBlockV ''f'' 3 \<or> BB = BasicBlockV ''f'' 4
                          then Some Loop_example else None),
      dominates = (\<lambda>BB Latch. case Latch of
                                 None \<Rightarrow> True
                               | Some B \<Rightarrow> BB = B \<or> BB = BasicBlockV ''f'' 2
                                   \<or> BB = BasicBlockV ''f'' 3)\<rparr>"

definition Label :: "uint32_t \<Rightarrow> SPIRVInstruction" where
  "Label i = \<lparr>WordCount = 2, Opcode = OpLabel, ResultID = i, Operands = []\<rparr>"

definition Deferred_example :: SPIRVProducerPass where
  "Deferred_example = (SPIRVProducerPass_ctor [] False False)
     \<lparr>nextID := 20,
      TypeMap := [FloatTy \<mapsto> 1, IntegerTy 1 \<mapsto> 2],
      ValueMap := [BasicBlockV ''f'' 2 \<mapsto> 10, BasicBlockV ''f'' 3 \<mapsto> 11,
                   BasicBlockV ''f'' 4 \<mapsto> 12, BasicBlockV ''f'' 5 \<mapsto> 13,
                   InstructionV ''f'' 0 \<mapsto> 14, InstructionV ''f'' 2 \<mapsto> 15,
                   FunctionV ''g'' \<mapsto> 5, ArgumentV ''f'' 0 \<mapsto> 7],
      SPIRVInsts := [Label 10, Label 11,
                     \<lparr>WordCount = 4, Opcode = OpLogicalNot, ResultID = 14,
                       Operands = [MkId 2, MkId 7]\<rparr>,
                     Label 12, Label 13,
                     \<lparr>WordCount = 1, Opcode = OpReturn, ResultID = 0, Operands = []\<rparr>]\<rparr>"

section \<open>Word counts\<close>





lemma GetNumWords_MkId: "GetNumWords (MkId i) = 1"
  by (simp add: GetNumWords_def MkId_def SPIRVOperand_Num_def)

lemma GetNumWords_MkNum: "GetNumWords (MkNum n) = 1"
  by (simp add: GetNumWords_def MkNum_def SPIRVOperand_Num_def)







section \<open>The header patch\<close>

lemma reserveBound_max:
  "reserveBound (- 1) os = os @ [32, 32, 32, 32, 32, 32, 32, 32, 32, 32]"
  apply (subst reserveBound.simps, simp add: os_write_def ascii_def)+
  done

lemma word_at_bytes:
  "word_at (pre @ bytes_of_uint32 w @ post) (length pre) = w"
proof -
  have "or (ucast (ucast w :: 8 word)) (or (push_bit 8 (ucast (ucast (drop_bit 8 w) :: 8 word))) (or (push_bit 16 (ucast (ucast (drop_bit 16 w) :: 8 word))) (push_bit 24 (ucast (ucast (drop_bit 24 w) :: 8 word))))) = (w :: 32 word)"
    apply (rule bit_word_eqI)
    apply (simp add: bit_simps)
    apply (auto simp add: not_less)
    subgoal for n by (cases "n < 16"; cases "n < 24"; simp add: not_less; arith)
    done
  then show ?thesis
    by (simp add: word_at_def bytes_of_uint32_def nth_append)
qed

lemma to_string_length: "n < 10 ^ k \<Longrightarrow> 0 < k \<Longrightarrow> length (to_string n) \<le> k"
proof (induction n arbitrary: k rule: to_string.induct)
  case (1 n)
  show ?case
  proof (cases "n < 10")
    case True
    then show ?thesis using 1(3) by (subst to_string.simps) simp
  next
    case False
    then obtain k' where k: "k = Suc k'" "0 < k'" using 1(2,3)
      by (cases k; cases "k - 1"; simp)
    have "n div 10 < 10 ^ k'" using 1(2) k by (simp add: less_mult_imp_div_less mult.commute)
    then have "length (to_string (n div 10)) \<le> k'" using 1(1) False k by simp
    then show ?thesis using False k by (subst to_string.simps) simp
  qed
qed

lemma read_digits_to_string:
  "read_digits acc (to_string n @ rest) = read_digits (acc * 10 ^ length (to_string n) + n) rest"
proof (induction n arbitrary: acc rest rule: to_string.induct)
  case (1 n)
  show ?case
  proof (cases "n < 10")
    case True
    then have d: "isdigit (of_nat (48 + n))" "unat (of_nat (48 + n) :: 8 word) = 48 + n"
      by (simp_all only: isdigit_def unat_of_nat) simp_all
    show ?thesis using True d by (subst to_string.simps, subst (2) to_string.simps) (simp add: mult.commute)
  next
    case False
    have m: "n mod 10 < 10" by simp
    then have d: "isdigit (of_nat (48 + n mod 10))" "unat (of_nat (48 + n mod 10) :: 8 word) = 48 + n mod 10"
      by (simp_all only: isdigit_def unat_of_nat) simp_all
    have "read_digits acc (to_string n @ rest) = read_digits acc (to_string (n div 10) @ (of_nat (48 + n mod 10) # rest))"
      using False by (subst to_string.simps) simp
    also have "\<dots> = read_digits (acc * 10 ^ length (to_string (n div 10)) + n div 10) (of_nat (48 + n mod 10) # rest)"
      using 1 False by simp
    also have "\<dots> = read_digits (10 * (acc * 10 ^ length (to_string (n div 10)) + n div 10) + n mod 10) rest"
      using d by simp
    also have "10 * (acc * 10 ^ length (to_string (n div 10)) + n div 10) + n mod 10 = acc * 10 ^ length (to_string n) + n"
      using False by (subst (2) to_string.simps) (simp add: algebra_simps)
    finally show ?thesis .
  qed
qed


lemma to_string_length10: "length (to_string (unat (w :: uint32_t))) \<le> 10"
proof -
  have "unat w < 2 ^ 32" using unsigned_less [of w] by simp
  then have "unat w < 10 ^ 10" by simp
  then show ?thesis by (rule to_string_length) simp
qed

lemma read_digits_stop:
  "\<not> isdigit b \<Longrightarrow> read_digits acc (to_string n @ b # rest) = n + acc * 10 ^ length (to_string n)"
  by (simp add: read_digits_to_string)

lemma decimal_at_patched:
  assumes "length digits = k" "k \<le> 10"
  shows "drop (k + length pre) (pre @ replicate 10 32 @ 10 # post) = replicate (10 - k) 32 @ 10 # post"
  using assms by simp

lemma take_suffix: "length b = k \<Longrightarrow> take k (drop (length (a @ b) - k) (a @ b)) = b"
  by simp

lemma length_ascii: "length (ascii str) = length str"
  by (simp add: ascii_def)

lemma outputHeader_asm:
  assumes "outputAsm P"
  shows "\<exists>pre post. out (outputHeader P) = pre @ replicate 10 32 @ 10 # post
      \<and> patchBoundOffset (outputHeader P) = length pre
      \<and> take 9 (drop (length pre - 9) pre) = ascii ''; Bound: ''
      \<and> outputAsm (outputHeader P)"
proof -
  define pre0 where "pre0 = out P @ ascii ''; SPIR-V\<newline>'' @ ascii ''; Version: ''
     @ to_string (unat (and (drop_bit 16 Version) 0xFF))
     @ ascii ''.'' @ to_string (unat (and (drop_bit 8 Version) 0xFF)) @ ascii ''\<newline>''
     @ ascii ''; Generator: Codeplay; 0\<newline>''"
  define pre where "pre = pre0 @ ascii ''; Bound: ''"
  have sp: "replicate 10 (32 :: 8 word) = [32, 32, 32, 32, 32, 32, 32, 32, 32, 32]"
    by (simp add: numeral_eq_Suc)
  have nl: "ascii ''\<newline>'' = [10]" by (simp add: ascii_def)
  have 1: "out (outputHeader P) = pre @ replicate 10 32 @ 10 # ascii ''; Schema: 0\<newline>''"
    unfolding sp using assms
    by (simp add: outputHeader_def Let_def os_write_def reserveBound_max tell_def
        pre_def pre0_def nl)
  have 2: "patchBoundOffset (outputHeader P) = length pre"
    using assms
    by (simp add: outputHeader_def Let_def os_write_def tell_def pre_def pre0_def)
  have 3: "take 9 (drop (length pre - 9) pre) = ascii ''; Bound: ''"
    unfolding pre_def by (rule take_suffix) (simp add: length_ascii)
  have 4: "outputAsm (outputHeader P)"
    using assms by (simp add: outputHeader_def Let_def)
  show ?thesis using 1 2 3 4 by blast
qed

lemma outputHeader_bin:
  assumes "\<not> outputAsm P"
  shows "\<exists>pre post. binaryOut (outputHeader P) = pre @ bytes_of_uint32 (nextID P) @ post
      \<and> patchBoundOffset (outputHeader P) = length pre
      \<and> length pre = tell (binaryOut P) + 3 * 4
      \<and> \<not> outputAsm (outputHeader P)
      \<and> outputCInitList (outputHeader P) = outputCInitList P"
proof -
  let ?pre = "binaryOut P @ bytes_of_uint32 MagicNumber @ bytes_of_uint32 Version @ bytes_of_uint32 (push_bit 16 3)"
  have 1: "binaryOut (outputHeader P) = ?pre @ bytes_of_uint32 (nextID P) @ bytes_of_uint32 0"
    using assms by (simp add: outputHeader_def Let_def os_write_def binaryOut_def binaryOut_update_def)
  have 2: "patchBoundOffset (outputHeader P) = length ?pre"
    using assms by (simp add: outputHeader_def Let_def os_write_def tell_def binaryOut_update_def)
  have 3: "length ?pre = tell (binaryOut P) + 3 * 4"
    by (simp add: tell_def bytes_of_uint32_def)
  have 4: "\<not> outputAsm (outputHeader P)" "outputCInitList (outputHeader P) = outputCInitList P"
    using assms by (simp_all add: outputHeader_def Let_def binaryOut_update_def)
  show ?thesis using 1 2 3 4 by blast
qed

text \<open>
  C2.  After \<^verbatim>\<open>outputHeader\<close>, whatever the translation appends to the output and
  whatever the id allocator reaches, \<^verbatim>\<open>patchHeader\<close> succeeds, and the id bound read
  back at the recorded offset is the allocator's value at that time: in assembly
  output the decimal number that follows \<^verbatim>\<open>; Bound: \<close>, in binary output the fourth
  word of the header, which held the allocator's initial value until then.
\<close>

theorem header_patch:
  assumes flags: "outputAsm P2 = outputAsm P0" "outputCInitList P2 = outputCInitList P0"
    and off: "patchBoundOffset P2 = patchBoundOffset (outputHeader P0)"
    and app: "out P2 = out (outputHeader P0) @ text"
      "binaryTempOut P2 = binaryTempOut (outputHeader P0) @ words"
  shows "\<exists>P3. patchHeader P2 = Inr P3 \<and>
     (if outputAsm P0
      then take 9 (drop (patchBoundOffset P2 - 9) (out P3)) = ascii ''; Bound: ''
         \<and> decimal_at (out P3) (patchBoundOffset P2) = unat (nextID P2)
      else patchBoundOffset P2 = tell (binaryOut P0) + 3 * 4
         \<and> word_at (binaryOut P2) (patchBoundOffset P2) = nextID P0
         \<and> word_at (binaryOut P3) (patchBoundOffset P2) = nextID P2)"
proof (cases "outputAsm P0")
  case True
  from outputHeader_asm [OF True] obtain pre post where
    h: "out (outputHeader P0) = pre @ replicate 10 32 @ 10 # post"
       "patchBoundOffset (outputHeader P0) = length pre"
       "take 9 (drop (length pre - 9) pre) = ascii ''; Bound: ''" by blast
  let ?d = "to_string (unat (nextID P2))"
  let ?k = "length ?d"
  have k: "?k \<le> 10" by (rule to_string_length10)
  let ?os = "pre @ ?d @ replicate (10 - ?k) 32 @ 10 # post @ text"
  have pw: "pwrite (out P2) ?d (patchBoundOffset P2) = Inr ?os"
    using k by (simp add: pwrite_def tell_def app h off)
  have nd: "\<not> isdigit 32" "\<not> isdigit 10" by (simp_all add: isdigit_def)
  have rd: "read_digits 0 (?d @ replicate (10 - ?k) 32 @ 10 # post @ text) = unat (nextID P2)"
    using nd by (cases "10 - ?k") (simp_all add: read_digits_to_string)
  have "patchHeader P2 = Inr (P2\<lparr>out := ?os\<rparr>)"
    using True flags pw by (simp add: patchHeader_def and_then_def)
  moreover have "take 9 (drop (length pre - 9) ?os) = ascii ''; Bound: ''"
    using h(3) by (simp add: ascii_def)
  moreover have "decimal_at ?os (length pre) = unat (nextID P2)"
    using rd by (simp add: decimal_at_def)
  ultimately show ?thesis using True off h(2) by simp
next
  case False
  from outputHeader_bin [OF False] obtain pre post where
    h: "binaryOut (outputHeader P0) = pre @ bytes_of_uint32 (nextID P0) @ post"
       "patchBoundOffset (outputHeader P0) = length pre"
       "length pre = tell (binaryOut P0) + 3 * 4"
       "outputCInitList (outputHeader P0) = outputCInitList P0" by blast
  obtain more where b2: "binaryOut P2 = pre @ bytes_of_uint32 (nextID P0) @ post @ more"
    using h(1,4) app flags by (cases "outputCInitList P0") (simp_all add: binaryOut_def)
  let ?os = "pre @ bytes_of_uint32 (nextID P2) @ post @ more"
  have len: "length (bytes_of_uint32 w) = 4" for w by (simp add: bytes_of_uint32_def)
  have pw: "pwrite (binaryOut P2) (bytes_of_uint32 (nextID P2)) (patchBoundOffset P2) = Inr ?os"
    by (simp add: pwrite_def tell_def b2 off h(2) len)
  have ph: "patchHeader P2 = Inr (binaryOut_update ?os P2)"
    using False flags pw by (simp add: patchHeader_def and_then_def)
  have "binaryOut (binaryOut_update ?os P2) = ?os"
    by (simp add: binaryOut_def binaryOut_update_def)
  then have "word_at (binaryOut (binaryOut_update ?os P2)) (length pre) = nextID P2"
    by (simp add: word_at_bytes)
  moreover have "word_at (binaryOut P2) (length pre) = nextID P0"
    by (simp add: b2 word_at_bytes)
  ultimately show ?thesis using False ph off h(2,3) by simp
qed

theorem header_patch_witness:
  "(\<exists>P3. patchHeader ((outputHeader (SPIRVProducerPass_ctor [] False False))
        \<lparr>nextID := 42, out := out (outputHeader (SPIRVProducerPass_ctor [] False False))
           @ [7, 0, 3, 0]\<rparr>) = Inr P3
      \<and> word_at (binaryOut P3) 12 = 42)
   \<and> (\<exists>P3. patchHeader ((outputHeader (SPIRVProducerPass_ctor [] True False))
        \<lparr>nextID := 42, out := out (outputHeader (SPIRVProducerPass_ctor [] True False))
           @ ascii ''OpNop''\<rparr>) = Inr P3
      \<and> decimal_at (out P3)
           (patchBoundOffset (outputHeader (SPIRVProducerPass_ctor [] True False))) = 42)"
proof -
  let ?B0 = "SPIRVProducerPass_ctor [] False False"
  let ?B2 = "(outputHeader ?B0)\<lparr>nextID := 42, out := out (outputHeader ?B0) @ [7, 0, 3, 0]\<rparr>"
  let ?A0 = "SPIRVProducerPass_ctor [] True False"
  let ?A2 = "(outputHeader ?A0)\<lparr>nextID := 42, out := out (outputHeader ?A0) @ ascii ''OpNop''\<rparr>"
  have fb: "\<not> outputAsm ?B0" "\<not> outputCInitList ?B0" "binaryOut ?B0 = []"
    by (simp_all add: SPIRVProducerPass_ctor_def binaryOut_def)
  have hb: "outputAsm (outputHeader ?B0) = outputAsm ?B0"
    "outputCInitList (outputHeader ?B0) = outputCInitList ?B0"
    by (simp_all add: outputHeader_def Let_def binaryOut_update_def)
  have fa: "outputAsm ?A0" by (simp add: SPIRVProducerPass_ctor_def)
  have ha: "outputAsm (outputHeader ?A0) = outputAsm ?A0"
    "outputCInitList (outputHeader ?A0) = outputCInitList ?A0"
    by (simp_all add: outputHeader_def Let_def binaryOut_update_def)
  have b: "\<exists>P3. patchHeader ?B2 = Inr P3 \<and> word_at (binaryOut P3) 12 = 42"
    using header_patch [of ?B2 ?B0 "[7, 0, 3, 0]" "[]"] fb hb
    by (auto simp add: tell_def)
  have a: "\<exists>P3. patchHeader ?A2 = Inr P3
      \<and> decimal_at (out P3) (patchBoundOffset (outputHeader ?A0)) = 42"
    using header_patch [of ?A2 ?A0 "ascii ''OpNop''" "[]"] fa ha
    by auto
  show ?thesis using a b by blast
qed

section \<open>Emission of types\<close>

lemma and_then_simps [simp]:
  "and_then (Inl e) f = Inl e" "and_then (Inr x) f = f x"
  by (simp_all add: and_then_def)

lemma and_then_Inr_iff [simp]:
  "and_then m f = Inr y \<longleftrightarrow> (\<exists>x. m = Inr x \<and> f x = Inr y)"
  by (cases m) simp_all

lemma MkNum_inject [simp]: "MkNum a = MkNum b \<longleftrightarrow> a = b"
  by (simp add: MkNum_def SPIRVOperand_Num_def)

lemma push_back_nextID_E:
  assumes "push_back_nextID Opc Ops P = Inr P'"
  obtains Inst where "P' = P\<lparr>nextID := nextID P + 1, SPIRVInsts := SPIRVInsts P @ [Inst]\<rparr>"
    "Opcode Inst = Opc" "Operands Inst = Ops" "ResultID Inst = nextID P" "nextID P \<noteq> 0"
  using assms
  by (auto simp add: push_back_nextID_def SPIRVInstruction_ResID_def split: if_splits)



lemma frame_same_insts: "SPIRVInsts P' = SPIRVInsts P \<Longrightarrow> frame Opc Q P P'"
  by (simp add: frame_def count_insts_def)

lemma frame_refl [simp]: "frame Opc Q P P"
  by (simp add: frame_def)


lemma push_back_nextID_frame:
  assumes "push_back_nextID Opc Ops P = Inr P'" "Opc \<noteq> Opc0 \<or> \<not> Q Ops"
  shows "frame Opc0 Q P P'"
proof -
  from assms(1) obtain Inst where
    "P' = P\<lparr>nextID := nextID P + 1, SPIRVInsts := SPIRVInsts P @ [Inst]\<rparr>"
    "Opcode Inst = Opc" "Operands Inst = Ops"
    by (rule push_back_nextID_E)
  then show ?thesis using assms(2)
    by (auto simp add: frame_def count_insts_def has_shape_def)
qed







lemma insert_decorations_TypeMap [simp]: "TypeMap (insert_decorations Decos P) = TypeMap P"
  by (simp add: insert_decorations_def)

lemma Opcode_SPIRVInstruction_Ops [simp]: "Opcode (SPIRVInstruction_Ops Opc Ops) = Opc"
  by (simp add: SPIRVInstruction_Ops_def)

lemma lookupType_cong: "TypeMap P' = TypeMap P \<Longrightarrow> lookupType P' Ty = lookupType P Ty"
  by (simp add: lookupType_def)

subsection \<open>The cases of the switch\<close>






lemma Integer_effect_ptr:
  assumes "GenerateSPIRVTypes_Integer Ty w P = Inr P'"
  shows "frame OpTypePointer Q P P'"
  using assms
  by (auto simp add: GenerateSPIRVTypes_Integer_def Let_def frame_same_insts
      split: if_splits dest!: push_back_nextID_frame [where ?Opc0.0 = OpTypePointer and Q = Q]
      simp add: frame_def count_insts_def)







subsection \<open>The invariant of the loop\<close>

lemma frame_TypeMap_upd [simp]: "frame Opc Q (P\<lparr>TypeMap := m\<rparr>) P' = frame Opc Q P P'"
  by (simp add: frame_def count_insts_def)










subsection \<open>Vectors of 8-bit integers\<close>

lemma loop_aborts:
  assumes "Ty \<in> set Tys" "\<And>S. \<exists>e. GenerateSPIRVTypes_body DL Ty S = Inl e"
  shows "\<exists>e. GenerateSPIRVTypes_loop DL Tys S = Inl e"
  using assms(1)
proof (induction Tys arbitrary: S)
  case Nil
  then show ?case by simp
next
  case (Cons T Tys)
  show ?case
  proof (cases "GenerateSPIRVTypes_body DL T S")
    case (Inl e)
    then show ?thesis by simp
  next
    case (Inr S1)
    then have "T \<noteq> Ty" using assms(2) [of S] by auto
    then have "Ty \<in> set Tys" using Cons.prems by simp
    from Cons.IH [OF this, of S1] show ?thesis using Inr by simp
  qed
qed

text \<open>
  C10.  A vector type with 8-bit integer elements and an element count other than 4
  stops the translation in the loop body, and so stops type emission whenever it is in
  the type list: nothing is ever emitted for it.  A vector type whose emission succeeds
  either is the 4-element vector of 8-bit integers, which emits nothing, allocates no id
  and takes the id of the 8-bit integer type (the unified 32-bit type of C3), or has
  another element type and gets an \<^verbatim>\<open>OpTypeVector\<close> of its own with a fresh id.
\<close>

theorem i8_vector_types:
  "(n \<noteq> 4 \<longrightarrow>
      GenerateSPIRVTypes_body DL (VectorTy (IntegerTy 8) n) S
        = Inl (Unreachable ''Support above i8 vector type'')
      \<and> (VectorTy (IntegerTy 8) n \<in> set (Types P) \<longrightarrow>
           (\<exists>e. GenerateSPIRVTypes DL P = Inl e)))
   \<and> (GenerateSPIRVTypes_body DL (VectorTy E n) S = Inr S' \<longrightarrow>
        (if is4xi8vec (VectorTy E n)
         then SPIRVInsts (fst S') = SPIRVInsts (fst S) \<and> nextID (fst S') = nextID (fst S)
            \<and> TypeMap (fst S') (VectorTy E n) = TypeMap (fst S) (IntegerTy 8)
            \<and> TypeMap (fst S) (IntegerTy 8) \<noteq> None
         else E \<noteq> IntegerTy 8
            \<and> (\<exists>Inst. SPIRVInsts (fst S') = SPIRVInsts (fst S) @ [Inst]
                  \<and> Opcode Inst = OpTypeVector \<and> ResultID Inst = nextID (fst S))
            \<and> TypeMap (fst S') (VectorTy E n) = Some (nextID (fst S))))"
proof -
  obtain P0 RT where S: "S = (P0, RT)" by (cases S)
  have abort: "GenerateSPIRVTypes_body DL (VectorTy (IntegerTy 8) n) S0
        = Inl (Unreachable ''Support above i8 vector type'')" if "n \<noteq> 4" for S0
    using that
    by (cases S0) (simp add: GenerateSPIRVTypes_body_def GenerateSPIRVTypes_Vector_def Let_def)
  have whole: "\<exists>e. GenerateSPIRVTypes DL P = Inl e"
    if "n \<noteq> 4" "VectorTy (IntegerTy 8) n \<in> set (Types P)"
  proof -
    from loop_aborts [OF that(2), of DL "(P, Map.empty)"] abort [OF that(1)]
    obtain e where "GenerateSPIRVTypes_loop DL (Types P) (P, Map.empty) = Inl e" by auto
    then show ?thesis by (simp add: GenerateSPIRVTypes_def)
  qed
  have ok: "if is4xi8vec (VectorTy E n)
         then SPIRVInsts (fst S') = SPIRVInsts (fst S) \<and> nextID (fst S') = nextID (fst S)
            \<and> TypeMap (fst S') (VectorTy E n) = TypeMap (fst S) (IntegerTy 8)
            \<and> TypeMap (fst S) (IntegerTy 8) \<noteq> None
         else E \<noteq> IntegerTy 8
            \<and> (\<exists>Inst. SPIRVInsts (fst S') = SPIRVInsts (fst S) @ [Inst]
                  \<and> Opcode Inst = OpTypeVector \<and> ResultID Inst = nextID (fst S))
            \<and> TypeMap (fst S') (VectorTy E n) = Some (nextID (fst S))"
    if b: "GenerateSPIRVTypes_body DL (VectorTy E n) S = Inr S'"
  proof (cases "E = IntegerTy 8")
    case True
    then show ?thesis using b unfolding S
      by (auto simp add: GenerateSPIRVTypes_body_def GenerateSPIRVTypes_Vector_def Let_def
          is4xi8vec_def lookupType_def split: if_splits option.splits)
  next
    case False
    then show ?thesis using b unfolding S
      by (auto simp add: GenerateSPIRVTypes_body_def GenerateSPIRVTypes_Vector_def Let_def
          is4xi8vec_def elim!: push_back_nextID_E)
  qed
  show ?thesis using abort whole ok by blast
qed

theorem i8_vector_types_witness:
  "GenerateSPIRVTypes_body DL_example (VectorTy (IntegerTy 8) 3) (Types_example, Map.empty)
      = Inl (Unreachable ''Support above i8 vector type'')
   \<and> (\<exists>e. GenerateSPIRVTypes DL_example
             (Types_example\<lparr>Types := [IntegerTy 8, VectorTy (IntegerTy 8) 3]\<rparr>) = Inl e)
   \<and> (\<exists>P'. GenerateSPIRVTypes DL_example Types_example = Inr P'
         \<and> TypeMap P' (VectorTy (IntegerTy 8) 4) = TypeMap P' (IntegerTy 8))"
proof -
  have a: "(3 :: uint32_t) \<noteq> 4" by simp
  have m: "VectorTy (IntegerTy 8) 3
      \<in> set (Types (Types_example\<lparr>Types := [IntegerTy 8, VectorTy (IntegerTy 8) 3]\<rparr>))"
    by simp
  have "case GenerateSPIRVTypes DL_example Types_example of
          Inl e \<Rightarrow> False
        | Inr P' \<Rightarrow> TypeMap P' (VectorTy (IntegerTy 8) 4) = TypeMap P' (IntegerTy 8)"
    by code_simp
  then have c: "\<exists>P'. GenerateSPIRVTypes DL_example Types_example = Inr P'
         \<and> TypeMap P' (VectorTy (IntegerTy 8) 4) = TypeMap P' (IntegerTy 8)"
    by (cases "GenerateSPIRVTypes DL_example Types_example") auto
  show ?thesis
    using i8_vector_types [of 3 DL_example "(Types_example, Map.empty)"
        "Types_example\<lparr>Types := [IntegerTy 8, VectorTy (IntegerTy 8) 3]\<rparr>"] a m c
    by blast
qed

section \<open>Emission of constants\<close>

subsection \<open>Vectors of four 8-bit integers\<close>



lemma lookupType_ValueMap_upd [simp]: "lookupType (P\<lparr>ValueMap := m\<rparr>) Ty = lookupType P Ty"
  by (simp add: lookupType_def)






subsection \<open>The 32-bit zero\<close>

lemma keeps_refl [simp]: "keeps cur P P"
  by (simp add: keeps_def)














section \<open>Binary operators\<close>

lemma fst_ValueMap_index [simp]: "fst (ValueMap_index V P) = valueID P V"
  by (simp add: ValueMap_index_def valueID_def split: option.splits)

lemma valueID_ValueMap_index [simp]: "valueID (snd (ValueMap_index V P)) = valueID P"
  by (rule ext) (simp add: ValueMap_index_def valueID_def split: option.splits)

lemma ValueMap_index_fields [simp]:
  "nextID (snd (ValueMap_index V P)) = nextID P"
  "SPIRVInsts (snd (ValueMap_index V P)) = SPIRVInsts P"
  "TypeMap (snd (ValueMap_index V P)) = TypeMap P"
  "errs (snd (ValueMap_index V P)) = errs P"
  by (simp_all add: ValueMap_index_def split: option.splits)

lemma lookupType_TypeMap_cong: "TypeMap P' = TypeMap P \<Longrightarrow> lookupType P' Ty = lookupType P Ty"
  by (simp add: lookupType_def)

lemma Register_fields [simp]:
  "nextID (GenerateInstruction_Register I P) = nextID P"
  "SPIRVInsts (GenerateInstruction_Register I P) = SPIRVInsts P"
  "TypeMap (GenerateInstruction_Register I P) = TypeMap P"
  by (simp_all add: GenerateInstruction_Register_def Let_def split_beta)

lemma GetSPIRVBinaryOpcode_Xor_i1 [simp]:
  "GetSPIRVBinaryOpcode Xor (IntegerTy 1) = Inr OpLogicalNotEqual"
  by (simp add: GetSPIRVBinaryOpcode_def)

lemma addWordCounts_ids2: "addWordCounts 2 [MkId a, MkId b] = 4"
  by (simp add: addWordCounts_def GetNumWords_MkId)

lemma addWordCounts_ids3: "addWordCounts 2 [MkId a, MkId b, MkId c] = 5"
  by (simp add: addWordCounts_def GetNumWords_MkId)

text \<open>
  Claim C6.  An \<^verbatim>\<open>xor\<close> of type \<^verbatim>\<open>i1\<close> is translated, with the next fresh id as its
  result.  If one of its operands is a constant, the instruction is \<^verbatim>\<open>OpLogicalNot\<close> of
  one operand: operand 1 if operand 0 is a constant, operand 0 otherwise, which is no
  constant whenever the two operands are not both constants.  If no operand is a
  constant, the instruction is \<^verbatim>\<open>OpLogicalNotEqual\<close> of the two operands, the opcode that
  \<^verbatim>\<open>GetSPIRVBinaryOpcode\<close> gives.
\<close>

theorem xor_i1_lowering:
  assumes ty: "lookupType P (IntegerTy 1) = Inr TyID"
    and fresh: "nextID P \<noteq> 0"
  shows "\<exists>P'. GenerateInstruction_BinaryOperator I Xor (IntegerTy 1) Operand0 Operand1 P = Inr P'
      \<and> nextID P' = nextID P + 1
      \<and> SPIRVInsts P' = SPIRVInsts P @
          [if isa_Constant Operand0 \<or> isa_Constant Operand1
           then \<lparr>WordCount = 4, Opcode = OpLogicalNot, ResultID = nextID P,
                  Operands = [MkId TyID,
                    MkId (valueID (GenerateInstruction_Register I P)
                            (if isa_Constant Operand0 then Operand1 else Operand0))]\<rparr>
           else \<lparr>WordCount = 5, Opcode = OpLogicalNotEqual, ResultID = nextID P,
                  Operands = [MkId TyID,
                    MkId (valueID (GenerateInstruction_Register I P) Operand0),
                    MkId (valueID (GenerateInstruction_Register I P) Operand1)]\<rparr>]
      \<and> (\<not> isa_Constant Operand0 \<or> \<not> isa_Constant Operand1
           \<longrightarrow> \<not> isa_Constant (if isa_Constant Operand0 then Operand1 else Operand0))"
proof -
  let ?R = "GenerateInstruction_Register I P"
  have t: "lookupType ?R (IntegerTy 1) = Inr TyID"
    using ty by (simp add: lookupType_TypeMap_cong [of ?R P])
  show ?thesis
  proof (cases "isa_Constant Operand0 \<or> isa_Constant Operand1")
    case True
    then show ?thesis using t fresh
      by (auto simp add: GenerateInstruction_BinaryOperator_def Let_def push_back_nextID_def
          SPIRVInstruction_ResID_def addWordCounts_ids2)
  next
    case False
    then show ?thesis using t fresh
      by (auto simp add: GenerateInstruction_BinaryOperator_def Let_def push_back_nextID_def
          SPIRVInstruction_ResID_def addWordCounts_ids3)
  qed
qed


lemma Xor_example_facts:
  "lookupType Xor_example (IntegerTy 1) = Inr 1"
  "nextID Xor_example = 4"
  "valueID (GenerateInstruction_Register (InstructionV ''f'' 0) Xor_example) (ArgumentV ''f'' 0) = 2"
  "valueID (GenerateInstruction_Register (InstructionV ''f'' 0) Xor_example) (ArgumentV ''f'' (Suc 0)) = 3"
  by code_simp+

theorem xor_i1_lowering_witness:
  "(\<exists>P'. GenerateInstruction_BinaryOperator (InstructionV ''f'' 0) Xor (IntegerTy 1)
            (ConstantV (ConstantInt 1 1)) (ArgumentV ''f'' 1) Xor_example = Inr P'
      \<and> SPIRVInsts P' = SPIRVInsts Xor_example @
          [\<lparr>WordCount = 4, Opcode = OpLogicalNot, ResultID = 4,
            Operands = [MkId 1, MkId 3]\<rparr>])
   \<and> (\<exists>P'. GenerateInstruction_BinaryOperator (InstructionV ''f'' 0) Xor (IntegerTy 1)
            (ArgumentV ''f'' 0) (ArgumentV ''f'' 1) Xor_example = Inr P'
      \<and> SPIRVInsts P' = SPIRVInsts Xor_example @
          [\<lparr>WordCount = 5, Opcode = OpLogicalNotEqual, ResultID = 4,
            Operands = [MkId 1, MkId 2, MkId 3]\<rparr>])"
proof -
  have n: "nextID Xor_example \<noteq> 0" by (simp add: Xor_example_facts)
  from xor_i1_lowering [OF Xor_example_facts(1) n, of "InstructionV ''f'' 0"
      "ConstantV (ConstantInt 1 1)" "ArgumentV ''f'' 1"]
  have 1: "\<exists>P'. GenerateInstruction_BinaryOperator (InstructionV ''f'' 0) Xor (IntegerTy 1)
            (ConstantV (ConstantInt 1 1)) (ArgumentV ''f'' 1) Xor_example = Inr P'
      \<and> SPIRVInsts P' = SPIRVInsts Xor_example @
          [\<lparr>WordCount = 4, Opcode = OpLogicalNot, ResultID = 4,
            Operands = [MkId 1, MkId 3]\<rparr>]"
    by (auto simp add: Xor_example_facts)
  from xor_i1_lowering [OF Xor_example_facts(1) n, of "InstructionV ''f'' 0"
      "ArgumentV ''f'' 0" "ArgumentV ''f'' 1"]
  have 2: "\<exists>P'. GenerateInstruction_BinaryOperator (InstructionV ''f'' 0) Xor (IntegerTy 1)
            (ArgumentV ''f'' 0) (ArgumentV ''f'' 1) Xor_example = Inr P'
      \<and> SPIRVInsts P' = SPIRVInsts Xor_example @
          [\<lparr>WordCount = 5, Opcode = OpLogicalNotEqual, ResultID = 4,
            Operands = [MkId 1, MkId 2, MkId 3]\<rparr>]"
    by (auto simp add: Xor_example_facts)
  from 1 2 show ?thesis by blast
qed

section \<open>Deferred instructions\<close>

lemma InsertPoint_le: "InsertPoint it Insts = Inr ip \<Longrightarrow> ip \<le> length Insts"
  by (auto simp add: InsertPoint_def Let_def split: if_splits)

lemma insert_before_twice:
  "insert_before (Suc ip) [b] (insert_before ip [a] xs) = insert_before ip [a, b] xs"
proof (cases "ip \<le> length xs")
  case True
  then show ?thesis by (simp add: insert_before_def min_def)
next
  case False
  then show ?thesis by (simp add: insert_before_def)
qed

lemma fold_continue:
  "fold (\<lambda>BB ContinueBB.
           if BB = H then ContinueBB else if D BB then Some BB else ContinueBB) bs acc =
     (if filter (\<lambda>BB. BB \<noteq> H \<and> D BB) bs = [] then acc
      else Some (last (filter (\<lambda>BB. BB \<noteq> H \<and> D BB) bs)))"
  by (induction bs arbitrary: acc) auto

lemma FindContinueBB_last:
  "FindContinueBB A L =
     (if ContinueCandidates A L = [] then None else Some (last (ContinueCandidates A L)))"
  unfolding FindContinueBB_def ContinueCandidates_def by (rule fold_continue)


lemma MkIds_snd_all:
  "valueID (snd (MkIds Vs P)) = valueID P
   \<and> SPIRVInsts (snd (MkIds Vs P)) = SPIRVInsts P
   \<and> errs (snd (MkIds Vs P)) = errs P"
proof (induction Vs arbitrary: P)
  case Nil
  then show ?case by simp
next
  case (Cons V Vs)
  have s: "snd (MkIds (V # Vs) P) = snd (MkIds Vs (snd (ValueMap_index V P)))"
    by (simp add: split_beta Let_def)
  show ?case unfolding s by (simp add: Cons.IH)
qed

lemma MkIds_snd [simp]:
  "valueID (snd (MkIds Vs P)) = valueID P"
  "SPIRVInsts (snd (MkIds Vs P)) = SPIRVInsts P"
  "errs (snd (MkIds Vs P)) = errs P"
  using MkIds_snd_all [of Vs P] by simp_all

lemma insert_at_fields [simp]:
  "valueID (insert_at ip Inst P) = valueID P"
  "SPIRVInsts (insert_at ip Inst P) = insert_before ip [Inst] (SPIRVInsts P)"
  "errs (insert_at ip Inst P) = errs P"
  by (simp_all add: insert_at_def valueID_def fun_eq_iff)

text \<open>
  Claim C5.  A deferred branch whose block is the header of its loop: if the loop has
  no exit block the translation aborts; if the header is not the latch and no other block
  of the loop dominates the latch, it aborts as well; otherwise two instructions are
  inserted at the insertion point, side by side: an \<^verbatim>\<open>OpLoopMerge\<close> with the id of the exit
  block, the id of the continue target and the selection control 0, and the branch.  The
  continue target is the header when the header is the latch, and otherwise the last
  block of the loop, other than the header, that dominates the latch.
\<close>

theorem loop_merge:
  assumes L: "getLoopFor A BrBB = Some L" and header: "isLoopHeader A BrBB"
    and ip: "InsertPoint it (SPIRVInsts P) = Inr ip"
  shows "case getExitBlock L of
           None \<Rightarrow>
             HandleDeferredInstruction_body A (BranchInst BrBB Successor0 Conditional, it, ResID) P
               = Inl (Unreachable ''Loop has multiple exits???'')
         | Some MergeBB \<Rightarrow>
             if \<not> isLoopLatch L BrBB \<and> ContinueCandidates A L = []
             then HandleDeferredInstruction_body A
                    (BranchInst BrBB Successor0 Conditional, it, ResID) P
                    = Inl (Unreachable ''Wrong continue block from loop'')
             else \<exists>P'. HandleDeferredInstruction_body A
                          (BranchInst BrBB Successor0 Conditional, it, ResID) P = Inr P'
                 \<and> valueID P' = valueID P
                 \<and> SPIRVInsts P' = insert_before ip
                     [SPIRVInstruction_Ops OpLoopMerge
                        [MkId (valueID P MergeBB),
                         MkId (valueID P (if isLoopLatch L BrBB then BrBB
                                          else last (ContinueCandidates A L))),
                         MkNum 0],
                      case Conditional of
                        None \<Rightarrow> SPIRVInstruction_Ops OpBranch [MkId (valueID P Successor0)]
                      | Some (Condition, Successor1) \<Rightarrow>
                          SPIRVInstruction_Ops OpBranchConditional
                            [MkId (valueID P Condition), MkId (valueID P Successor0),
                             MkId (valueID P Successor1)]]
                     (SPIRVInsts P)"
proof (cases "getExitBlock L")
  case None
  then show ?thesis using L header ip
    by (simp add: HandleDeferredInstruction_body_def GenerateMerge_def)
next
  case (Some MergeBB)
  show ?thesis
  proof (cases "\<not> isLoopLatch L BrBB \<and> ContinueCandidates A L = []")
    case True
    then show ?thesis using L header ip Some
      by (simp add: HandleDeferredInstruction_body_def GenerateMerge_def FindContinueBB_last)
  next
    case False
    define ContinueBB where
      "ContinueBB = (if isLoopLatch L BrBB then BrBB else last (ContinueCandidates A L))"
    have c: "(if isLoopLatch L BrBB then Inr BrBB
              else case FindContinueBB A L of
                     None \<Rightarrow> Inl (Unreachable ''Wrong continue block from loop'')
                   | Some BB \<Rightarrow> Inr BB) = Inr ContinueBB"
      using False by (auto simp add: ContinueBB_def FindContinueBB_last)
    show ?thesis
    proof (cases Conditional)
      case None
      show ?thesis using L header ip Some False
        unfolding ContinueBB_def [symmetric]
        by (auto simp add: HandleDeferredInstruction_body_def GenerateMerge_def c Let_def None
            GenerateBranch_def insert_before_twice SelectionControlMaskNone_def)
    next
      case (Some cs)
      obtain Condition Successor1 where cs: "cs = (Condition, Successor1)" by (cases cs)
      show ?thesis using L header ip \<open>getExitBlock L = Some MergeBB\<close> False
        unfolding ContinueBB_def [symmetric]
        by (auto simp add: HandleDeferredInstruction_body_def GenerateMerge_def c Let_def Some cs
            GenerateBranch_def insert_before_twice SelectionControlMaskNone_def)
    qed
  qed
qed


lemma Deferred_example_fields:
  "SPIRVInsts Deferred_example =
     [Label 10, Label 11,
      \<lparr>WordCount = 4, Opcode = OpLogicalNot, ResultID = 14, Operands = [MkId 2, MkId 7]\<rparr>,
      Label 12, Label 13,
      \<lparr>WordCount = 1, Opcode = OpReturn, ResultID = 0, Operands = []\<rparr>]"
  "errs Deferred_example = []"
  by (simp_all add: Deferred_example_def SPIRVProducerPass_ctor_def)

lemma Deferred_example_InsertPoint:
  "InsertPoint 2 (SPIRVInsts Deferred_example) = Inr 3"
  "InsertPoint 4 (SPIRVInsts Deferred_example) = Inr 5"
  by (simp_all add: Deferred_example_fields InsertPoint_def Label_def)

lemma Deferred_example_ids:
  "valueID Deferred_example (BasicBlockV ''f'' 4) = 12"
  "valueID Deferred_example (BasicBlockV ''f'' 5) = 13"
  "valueID Deferred_example (InstructionV ''f'' 0) = 14"
  "valueID Deferred_example (FunctionV ''h'') = 0"
  by (simp_all add: Deferred_example_def valueID_def)

lemma SPIRVInstruction_Ops_ids3:
  "SPIRVInstruction_Ops Opc [MkId a, MkId b, MkNum c] =
     \<lparr>WordCount = 4, Opcode = Opc, ResultID = 0, Operands = [MkId a, MkId b, MkNum c]\<rparr>"
  "SPIRVInstruction_Ops Opc [MkId a, MkId b, MkId d] =
     \<lparr>WordCount = 4, Opcode = Opc, ResultID = 0, Operands = [MkId a, MkId b, MkId d]\<rparr>"
  by (simp_all add: SPIRVInstruction_Ops_def addWordCounts_def GetNumWords_MkId GetNumWords_MkNum)

theorem loop_merge_witness:
  "\<exists>P'. HandleDeferredInstruction_body Analyses_example
           (BranchInst (BasicBlockV ''f'' 3) (BasicBlockV ''f'' 4)
              (Some (InstructionV ''f'' 0, BasicBlockV ''f'' 5)), 2, 0) Deferred_example = Inr P'
      \<and> SPIRVInsts P' =
          [Label 10, Label 11,
           \<lparr>WordCount = 4, Opcode = OpLogicalNot, ResultID = 14, Operands = [MkId 2, MkId 7]\<rparr>,
           \<lparr>WordCount = 4, Opcode = OpLoopMerge, ResultID = 0,
             Operands = [MkId 13, MkId 12, MkNum 0]\<rparr>,
           \<lparr>WordCount = 4, Opcode = OpBranchConditional, ResultID = 0,
             Operands = [MkId 14, MkId 12, MkId 13]\<rparr>,
           Label 12, Label 13,
           \<lparr>WordCount = 1, Opcode = OpReturn, ResultID = 0, Operands = []\<rparr>]"
proof -
  have L: "getLoopFor Analyses_example (BasicBlockV ''f'' 3) = Some Loop_example"
    by (simp add: Analyses_example_def)
  have h: "isLoopHeader Analyses_example (BasicBlockV ''f'' 3)"
    by (simp add: isLoopHeader_def L) (simp add: Loop_example_def)
  have e: "getExitBlock Loop_example = Some (BasicBlockV ''f'' 5)"
    "\<not> isLoopLatch Loop_example (BasicBlockV ''f'' 3)"
    "ContinueCandidates Analyses_example Loop_example = [BasicBlockV ''f'' 4]"
    by (simp_all add: Loop_example_def ContinueCandidates_def Analyses_example_def)
  from loop_merge [OF L h Deferred_example_InsertPoint(1),
      of "BasicBlockV ''f'' 4" "Some (InstructionV ''f'' 0, BasicBlockV ''f'' 5)" 0]
  show ?thesis
    by (simp add: e Deferred_example_ids SPIRVInstruction_Ops_ids3)
      (auto simp add: Deferred_example_fields insert_before_def)
qed


lemma lookupType_errs [simp]: "lookupType (P\<lparr>errs := e\<rparr>) Ty = lookupType P Ty"
  by (simp add: lookupType_def)

lemma valueID_errs [simp]: "valueID (P\<lparr>errs := e\<rparr>) = valueID P"
  by (simp add: valueID_def fun_eq_iff)

lemma valueID_ValueMap_index_callee:
  "valueID (snd (ValueMap_index V P)\<lparr>errs := e\<rparr>) = valueID P"
  by simp




end
